theory Spec2Isabelle
  imports Complex_Main "HOL-Library.Sublist"
begin

section \<open>Strings\<close>

text \<open>
  A JavaScript string is modelled as a \<open>string\<close> of code units in the ASCII range.
  \<open>toLowerCase\<close> maps \<open>A\<close>..\<open>Z\<close> to \<open>a\<close>..\<open>z\<close>; \<open>trim\<close> removes the ASCII white space
  (space, tab, line feed, vertical tab, form feed, carriage return) at both ends.
\<close>

definition lower_table :: "(char \<times> char) list" where
  "lower_table = zip ''ABCDEFGHIJKLMNOPQRSTUVWXYZ'' ''abcdefghijklmnopqrstuvwxyz''"

definition lower_char :: "char \<Rightarrow> char" where
  "lower_char c = (case map_of lower_table c of Some d \<Rightarrow> d | None \<Rightarrow> c)"

definition toLowerCase :: "string \<Rightarrow> string" where
  "toLowerCase s = map lower_char s"

definition is_ws :: "char \<Rightarrow> bool" where
  "is_ws c = (c \<in> set [CHR '' '', CHR 0x09, CHR 0x0A, CHR 0x0B, CHR 0x0C, CHR 0x0D])"

definition trim :: "string \<Rightarrow> string" where
  "trim s = rev (dropWhile is_ws (rev (dropWhile is_ws s)))"

text \<open>\<open>s.includes(sub)\<close>: \<open>sub\<close> occurs in \<open>s\<close> as a contiguous substring.\<close>

fun str_includes :: "string \<Rightarrow> string \<Rightarrow> bool" where
  "str_includes [] sub = (sub = [])"
| "str_includes (c # cs) sub = (prefix sub (c # cs) \<or> str_includes cs sub)"

text \<open>\<open>s.startsWith(p)\<close>.\<close>

definition startsWith :: "string \<Rightarrow> string \<Rightarrow> bool" where
  "startsWith s p = prefix p s"

text \<open>
  \<open>s.split(/\s+/)\<close>: every maximal run of white space is one separator; a separator at
  the start or the end leaves an empty piece there, and the empty string splits into one
  empty piece. \<open>cur\<close> is the piece being read (reversed), \<open>insep\<close> says that the previous
  character belonged to a separator.
\<close>

fun split_ws_from :: "string \<Rightarrow> bool \<Rightarrow> string \<Rightarrow> string list" where
  "split_ws_from cur insep [] = [rev cur]"
| "split_ws_from cur insep (c # cs) =
     (if is_ws c then
        (if insep then split_ws_from [] True cs else rev cur # split_ws_from [] True cs)
      else split_ws_from (c # cur) False cs)"

definition split_ws :: "string \<Rightarrow> string list" where
  "split_ws s = split_ws_from [] False s"

text \<open>\<open>s.split(d)\<close> for a one-character separator.\<close>

fun split_on_from :: "char \<Rightarrow> string \<Rightarrow> string \<Rightarrow> string list" where
  "split_on_from d cur [] = [rev cur]"
| "split_on_from d cur (c # cs) =
     (if c = d then rev cur # split_on_from d [] cs else split_on_from d (c # cur) cs)"

definition split_on :: "char \<Rightarrow> string \<Rightarrow> string list" where
  "split_on d s = split_on_from d [] s"

text \<open>
  \<open>const m = xs.find(P); if (m) ...\<close>: the first element that satisfies \<open>P\<close>, used only
  when it is truthy. An empty string is falsy, so a first hit that is the empty string
  counts as no hit at all.
\<close>

definition find_truthy :: "(string \<Rightarrow> bool) \<Rightarrow> string list \<Rightarrow> string option" where
  "find_truthy P xs =
     (case find P xs of Some s \<Rightarrow> (if s = [] then None else Some s) | None \<Rightarrow> None)"

text \<open>The first iteration of a loop whose body returns a value.\<close>

fun first_some :: "('a \<Rightarrow> 'b option) \<Rightarrow> 'a list \<Rightarrow> 'b option" where
  "first_some f [] = None"
| "first_some f (x # xs) = (case f x of Some y \<Rightarrow> Some y | None \<Rightarrow> first_some f xs)"

section \<open>Scanner: deduplication\<close>

record ScannedQuestion =
  questionText :: string
  fieldType :: string
  options :: "string list option"
  required :: bool
  selector :: string

definition question_key :: "ScannedQuestion \<Rightarrow> string" where
  "question_key q = trim (toLowerCase (questionText q))"

text \<open>
  \<open>deduplicateQuestions\<close> filters the list with a growing set of keys already seen;
  \<open>seen\<close> is that set.
\<close>

fun dedup_from :: "string set \<Rightarrow> ScannedQuestion list \<Rightarrow> ScannedQuestion list" where
  "dedup_from seen [] = []"
| "dedup_from seen (q # qs) =
     (if question_key q \<in> seen then dedup_from seen qs
      else q # dedup_from (insert (question_key q) seen) qs)"

definition deduplicateQuestions :: "ScannedQuestion list \<Rightarrow> ScannedQuestion list" where
  "deduplicateQuestions questions = dedup_from {} questions"

text \<open>
  \<open>FormScanner.scan\<close>: \<open>findAllFormFields\<close> gives the fields or throws (\<open>None\<close>).
  \<open>processField\<close> gives a question or \<open>null\<close> for each field (it catches its own errors);
  it opens dropdowns to read their options, so it runs on the page state \<open>d\<close> and returns
  the next one. The \<open>try\<close> block around the whole scan returns the list built so far when
  something throws, which is the empty list when \<open>findAllFormFields\<close> does.
\<close>

fun processFields ::
  "('d \<Rightarrow> 'f \<Rightarrow> ScannedQuestion option \<times> 'd) \<Rightarrow> 'd \<Rightarrow> 'f list \<Rightarrow> ScannedQuestion list" where
  "processFields processField d [] = []"
| "processFields processField d (f # fs) =
     (case processField d f of
        (None, d') \<Rightarrow> processFields processField d' fs
      | (Some question, d') \<Rightarrow> question # processFields processField d' fs)"

definition scan ::
  "'f list option \<Rightarrow> ('d \<Rightarrow> 'f \<Rightarrow> ScannedQuestion option \<times> 'd) \<Rightarrow> 'd \<Rightarrow> ScannedQuestion list" where
  "scan findAllFormFields processField d =
     (case findAllFormFields of
        None \<Rightarrow> []
      | Some flds \<Rightarrow> deduplicateQuestions (processFields processField d flds))"

section \<open>Scanner: field classification\<close>

text \<open>
  The part of the DOM that \<open>detectFieldType\<close> reads. A node has a tag name (lower case,
  as selectors match it), its attributes and its children. \<open>input_type\<close> is the value of
  the \<open>type\<close> property of an \<open>HTMLInputElement\<close>. An element is a node together with its
  ancestors, nearest first.
\<close>

datatype node = Node (tag: string) (attrs: "(string \<times> string) list") (children: "node list")

record element =
  self :: node
  ancestors :: "node list"
  input_type :: string








section \<open>Profile\<close>

text \<open>
  The mapper receives the profile as \<open>any\<close> and walks it by property name, so it is
  modelled as a tree of JavaScript values: strings, booleans and nested objects, with
  \<open>undefined\<close> and \<open>null\<close>. The profile's declared type holds no other kind of value.
\<close>

datatype jsval = JUndefined | JNull | JBool bool | JStr string | JObj "(string \<times> jsval) list"

text \<open>
  \<open>v?.[k]\<close>: the property of an object, \<open>undefined\<close> when the object does not have it or
  when \<open>v\<close> is \<open>undefined\<close> or \<open>null\<close>. The built-in properties of strings and booleans
  (such as \<open>length\<close>) and the properties that a profile object inherits are not
  modelled: a property is \<open>undefined\<close> unless the object has it as its own.
\<close>

fun pget :: "jsval \<Rightarrow> string \<Rightarrow> jsval" where
  "pget (JObj kvs) k = (case map_of kvs k of Some v \<Rightarrow> v | None \<Rightarrow> JUndefined)"
| "pget v k = JUndefined"

fun truthy :: "jsval \<Rightarrow> bool" where
  "truthy JUndefined = False"
| "truthy JNull = False"
| "truthy (JBool b) = b"
| "truthy (JStr s) = (s \<noteq> [])"
| "truthy (JObj kvs) = True"

text \<open>\<open>String(v)\<close>.\<close>

fun js_String :: "jsval \<Rightarrow> string" where
  "js_String JUndefined = ''undefined''"
| "js_String JNull = ''null''"
| "js_String (JBool b) = (if b then ''true'' else ''false'')"
| "js_String (JStr s) = s"
| "js_String (JObj kvs) = ''[object Object]''"

text \<open>
  \<open>getValueFromProfile\<close>: walk the intent path; \<open>walk\<close> is the loop, \<open>None\<close> its early
  \<open>return null\<close>.
\<close>

fun walk :: "jsval \<Rightarrow> string list \<Rightarrow> jsval option" where
  "walk v [] = Some v"
| "walk v (part # parts) =
     (let v' = pget v part in if v' = JUndefined then None else walk v' parts)"

definition getValueFromProfile :: "jsval \<Rightarrow> string \<Rightarrow> string option" where
  "getValueFromProfile profile intent =
     (case walk profile (split_on (CHR ''.'') intent) of
        None \<Rightarrow> None
      | Some (JBool b) \<Rightarrow> Some (if b then ''Yes'' else ''No'')
      | Some v \<Rightarrow> (if truthy v then Some (js_String v) else None))"

section \<open>Question mapper: option matching\<close>

datatype error = NoProfile | TypeError

datatype answer_source = Canonical | Learned | Fuzzy | AI

text \<open>
  The object that the three local tiers return for one question. A confidence is the
  number as the source writes it or receives it in decimal, and comparisons of
  confidences are exact.
\<close>

record MapResult =
  r_answer :: string
  r_source :: answer_source
  r_confidence :: real
  r_fileName :: "string option"

definition canonical_result :: "string \<Rightarrow> real \<Rightarrow> MapResult" where
  "canonical_result a c =
     \<lparr>r_answer = a, r_source = Canonical, r_confidence = c, r_fileName = None\<rparr>"

text \<open>\<open>!options || options.length === 0\<close> holds exactly when this list is empty.\<close>

definition opts_of :: "string list option \<Rightarrow> string list" where
  "opts_of os = (case os of None \<Rightarrow> [] | Some xs \<Rightarrow> xs)"

text \<open>
  The tables of \<open>matchInOptions\<close> are object literals, so a lookup \<open>table[key]\<close> also finds
  what the literal inherits from \<open>Object.prototype\<close>: for such a key the result is a
  function or an object, which is truthy, and not the table's own entry.
\<close>

datatype 'a js_lookup = Own 'a | Inherited | Absent

definition object_prototype_keys :: "string list" where
  "object_prototype_keys =
     [''constructor'', ''__proto__'', ''hasOwnProperty'', ''isPrototypeOf'',
      ''propertyIsEnumerable'', ''toLocaleString'', ''toString'', ''valueOf'',
      ''__defineGetter__'', ''__defineSetter__'', ''__lookupGetter__'', ''__lookupSetter__'']"

definition literal_lookup :: "(string \<times> 'a) list \<Rightarrow> string \<Rightarrow> 'a js_lookup" where
  "literal_lookup table k =
     (case map_of table k of
        Some v \<Rightarrow> Own v
      | None \<Rightarrow> (if k \<in> set object_prototype_keys then Inherited else Absent))"

definition synonyms :: "(string \<times> string list) list" where
  "synonyms =
     [(''male'', [''man'']), (''female'', [''woman'']),
      (''man'', [''male'']), (''woman'', [''female''])]"

definition countryMap :: "(string \<times> string) list" where
  "countryMap =
     [(''usa'', ''united states''), (''us'', ''united states''),
      (''uk'', ''united kingdom''), (''uae'', ''united arab emirates'')]"

text \<open>
  Step 1.5 of \<open>matchInOptions\<close>. \<open>for (const synonym of synonyms[valueLower])\<close> iterates the
  table's own entry; on an inherited value, which is not iterable, it throws a TypeError.
\<close>

definition synonymMatch :: "string \<Rightarrow> string list \<Rightarrow> error + string option" where
  "synonymMatch valueLower opts =
     (case literal_lookup synonyms valueLower of
        Own syns \<Rightarrow>
          Inr (first_some (\<lambda>synonym. find_truthy (\<lambda>opt. trim (toLowerCase opt) = synonym) opts) syns)
      | Inherited \<Rightarrow> Inl TypeError
      | Absent \<Rightarrow> Inr None)"

text \<open>
  Step 4. An inherited value is turned into text by \<open>includes\<close>; that text has capital
  letters, so no lower-cased option contains it.
\<close>

definition countryMatch :: "string \<Rightarrow> string list \<Rightarrow> string option" where
  "countryMatch valueLower opts =
     (case literal_lookup countryMap valueLower of
        Own mappedName \<Rightarrow> find_truthy (\<lambda>opt. str_includes (toLowerCase opt) mappedName) opts
      | Inherited \<Rightarrow> None
      | Absent \<Rightarrow> None)"

definition wordMatches :: "string \<Rightarrow> string \<Rightarrow> bool" where
  "wordMatches valueLower opt =
     (let optLower = toLowerCase opt; valueWords = split_ws valueLower in
      startsWith optLower valueLower \<or>
      list_ex (\<lambda>word. startsWith optLower word \<and> 3 \<le> length word) valueWords)"

definition matchInOptions :: "string \<Rightarrow> string list option \<Rightarrow> real \<Rightarrow> error + MapResult option" where
  "matchInOptions val os confidence =
     (if opts_of os = [] then Inr (Some (canonical_result val confidence))
      else
        let opts = opts_of os; valueLower = trim (toLowerCase val) in
        case find_truthy (\<lambda>opt. trim (toLowerCase opt) = valueLower) opts of
          Some exactMatch \<Rightarrow> Inr (Some (canonical_result exactMatch confidence))
        | None \<Rightarrow>
            (case synonymMatch valueLower opts of
               Inl e \<Rightarrow> Inl e
             | Inr (Some synMatch) \<Rightarrow> Inr (Some (canonical_result synMatch confidence))
             | Inr None \<Rightarrow>
                 (case find_truthy (\<lambda>opt. str_includes (toLowerCase opt) valueLower \<or>
                                          str_includes valueLower (toLowerCase opt)) opts of
                    Some partialMatch \<Rightarrow> Inr (Some (canonical_result partialMatch confidence))
                  | None \<Rightarrow>
                      (case find_truthy (wordMatches valueLower) opts of
                         Some wordMatch \<Rightarrow> Inr (Some (canonical_result wordMatch confidence))
                       | None \<Rightarrow>
                           (case countryMatch valueLower opts of
                              Some cMatch \<Rightarrow> Inr (Some (canonical_result cMatch confidence))
                            | None \<Rightarrow> Inr None)))))"

definition yesLike :: "string \<Rightarrow> bool" where
  "yesLike opt =
     (str_includes (toLowerCase opt) ''yes'' \<or> toLowerCase opt = ''y'' \<or>
      str_includes (toLowerCase opt) ''true'' \<or> toLowerCase opt = ''i do'')"

definition noLike :: "string \<Rightarrow> bool" where
  "noLike opt =
     (str_includes (toLowerCase opt) ''no'' \<or> toLowerCase opt = ''n'' \<or>
      str_includes (toLowerCase opt) ''false'' \<or> toLowerCase opt = ''i do not'' \<or>
      toLowerCase opt = ''i don'' @ [CHR 0x27] @ ''t'' \<or>
      str_includes (toLowerCase opt) ''prefer not'')"

definition booleanToYesNo :: "bool \<Rightarrow> string list option \<Rightarrow> string" where
  "booleanToYesNo val os =
     (if opts_of os = [] then (if val then ''Yes'' else ''No'')
      else if val then
        (case find_truthy yesLike (opts_of os) of Some yesOption \<Rightarrow> yesOption | None \<Rightarrow> ''Yes'')
      else
        (case find_truthy noLike (opts_of os) of Some noOption \<Rightarrow> noOption | None \<Rightarrow> ''No''))"

text \<open>\<open>fuzzyMatchOption\<close>, used on an answer of the AI.\<close>

definition fuzzyMatchOption :: "string \<Rightarrow> string list \<Rightarrow> error + string option" where
  "fuzzyMatchOption val opts =
     (case matchInOptions val (Some opts) 0.9 of
        Inl e \<Rightarrow> Inl e
      | Inr None \<Rightarrow> Inr None
      | Inr (Some r) \<Rightarrow> Inr (Some (r_answer r)))"

section \<open>Question mapper: the canonical and fuzzy tiers\<close>

text \<open>
  \<open>tryCanonical\<close> is a chain of rules, tried in the order of the source. A rule whose
  condition holds returns; the file rules and the yes/no rules fall through to the next
  rule when the profile has no value for them. The direct return of a profile field
  gives \<open>String\<close> of the field, which is the field itself for the strings of the
  profile's declared type.
\<close>

definition fileResult :: "string \<Rightarrow> string \<Rightarrow> MapResult" where
  "fileResult dataUrl fileName =
     \<lparr>r_answer = dataUrl, r_source = Canonical, r_confidence = 1, r_fileName = Some fileName\<rparr>"

definition dataUrlOf :: "string \<Rightarrow> string" where
  "dataUrlOf base64Data =
     (if startsWith base64Data ''data:'' then base64Data
      else ''data:application/pdf;base64,'' @ base64Data)"

definition tryCanonical :: "ScannedQuestion \<Rightarrow> jsval \<Rightarrow> error + MapResult option" where
  "tryCanonical question profile =
     (let qLower = toLowerCase (questionText question);
          has = str_includes qLower;
          os = options question;
          isFile = (fieldType question = ''file'');
          personal = pget profile ''personal'';
          social = pget profile ''social'';
          documents = pget profile ''documents'';
          workAuthorization = pget profile ''workAuthorization'';
          application = pget profile ''application'';
          eeo = pget profile ''eeo'';
          resume = pget documents ''resume'';
          coverLetter = pget documents ''coverLetter''
      in
      if (has ''first name'' \<or> qLower = ''first name'') \<and> truthy (pget personal ''firstName'') then
        Inr (Some (canonical_result (js_String (pget personal ''firstName'')) 1))
      else if (has ''last name'' \<or> qLower = ''last name'') \<and> truthy (pget personal ''lastName'') then
        Inr (Some (canonical_result (js_String (pget personal ''lastName'')) 1))
      else if (has ''email'' \<or> qLower = ''email'') \<and> truthy (pget personal ''email'') then
        Inr (Some (canonical_result (js_String (pget personal ''email'')) 1))
      else if (has ''phone'' \<or> qLower = ''phone'') \<and> truthy (pget personal ''phone'') then
        Inr (Some (canonical_result (js_String (pget personal ''phone'')) 1))
      else if has ''country'' \<and> truthy (pget personal ''country'') then
        matchInOptions (js_String (pget personal ''country'')) os 1
      else if has ''city'' \<and> truthy (pget personal ''city'') then
        Inr (Some (canonical_result (js_String (pget personal ''city'')) 1))
      else if has ''state'' \<and> \<not> has ''united'' \<and> truthy (pget personal ''state'') then
        Inr (Some (canonical_result (js_String (pget personal ''state'')) 1))
      else if (has ''linkedin'' \<or> has ''linked in'' \<or> has ''linkedin profile'' \<or>
               has ''linkedin url'' \<or> has ''professional profile'' \<or> qLower = ''linkedin'') \<and>
              truthy (pget social ''linkedin'') then
        Inr (Some (canonical_result (js_String (pget social ''linkedin'')) 1))
      else if (has ''website'' \<or> has ''portfolio'' \<or> has ''personal website'' \<or>
               has ''online portfolio'' \<or> qLower = ''website'') \<and>
              truthy (pget social ''website'') then
        Inr (Some (canonical_result (js_String (pget social ''website'')) 1))
      else if ((isFile \<and> str_includes (selector question) ''resume'') \<or> has ''resume'' \<or> has ''cv'' \<or>
               (isFile \<and> qLower = ''attach'' \<and> str_includes (selector question) ''resume'')) \<and>
              truthy (pget resume ''base64'') then
        Inr (Some (fileResult (dataUrlOf (js_String (pget resume ''base64'')))
          (if truthy (pget resume ''fileName'') then js_String (pget resume ''fileName'')
           else if truthy (pget personal ''firstName'') \<and> truthy (pget personal ''lastName'') then
             js_String (pget personal ''firstName'') @ ''_'' @
             js_String (pget personal ''lastName'') @ ''_Resume.pdf''
           else ''resume.pdf'')))
      else if ((isFile \<and> str_includes (selector question) ''cover'') \<or> has ''cover letter'' \<or>
               has ''cover_letter'' \<or>
               (isFile \<and> qLower = ''attach'' \<and> str_includes (selector question) ''cover'')) \<and>
              truthy (pget coverLetter ''base64'') then
        Inr (Some (fileResult (dataUrlOf (js_String (pget coverLetter ''base64'')))
          (if truthy (pget coverLetter ''fileName'') then js_String (pget coverLetter ''fileName'')
           else ''cover_letter.pdf'')))
      else if has ''driver'' \<and> has ''license'' \<and>
              pget workAuthorization ''driverLicense'' \<noteq> JUndefined then
        Inr (Some (canonical_result
          (booleanToYesNo (truthy (pget workAuthorization ''driverLicense'')) os) 1))
      else if has ''sponsor'' \<and> (has ''visa'' \<or> has ''work'' \<or> has ''government'') \<and>
              pget workAuthorization ''needsSponsorship'' \<noteq> JUndefined then
        Inr (Some (canonical_result
          (booleanToYesNo (truthy (pget workAuthorization ''needsSponsorship'')) os) 1))
      else if (has ''authorized'' \<or> has ''legally'') \<and> has ''work'' \<and>
              (has ''united states'' \<or> has ''u.s.'' \<or> has ''us'' \<or> has ''america'') \<and>
              pget workAuthorization ''authorizedUS'' \<noteq> JUndefined then
        Inr (Some (canonical_result
          (booleanToYesNo (truthy (pget workAuthorization ''authorizedUS'')) os) 1))
      else if ((has ''relat'' \<and> has ''employee'') \<or> (has ''friend'' \<and> has ''work'')) \<and>
              pget application ''hasRelatives'' \<noteq> JUndefined then
        Inr (Some (canonical_result
          (booleanToYesNo (truthy (pget application ''hasRelatives'')) os) 1))
      else if has ''previously'' \<and> has ''appl'' \<and>
              pget application ''previouslyApplied'' \<noteq> JUndefined then
        Inr (Some (canonical_result
          (booleanToYesNo (truthy (pget application ''previouslyApplied'')) os) 1))
      else if has ''gender'' \<and> truthy (pget eeo ''gender'') then
        matchInOptions (js_String (pget eeo ''gender'')) os 1
      else if (has ''hispanic'' \<or> has ''latino'') \<and> truthy (pget eeo ''hispanic'') then
        matchInOptions (js_String (pget eeo ''hispanic'')) os 1
      else if has ''veteran'' \<and> truthy (pget eeo ''veteran'') then
        matchInOptions (js_String (pget eeo ''veteran'')) os 1
      else if has ''disability'' \<and> truthy (pget eeo ''disability'') then
        matchInOptions (js_String (pget eeo ''disability'')) os 1
      else if has ''race'' \<and> truthy (pget eeo ''race'') then
        matchInOptions (js_String (pget eeo ''race'')) os 1
      else Inr None)"

text \<open>
  \<open>tryFuzzy\<close>: the one rule of the fuzzy tier; its result comes from \<open>matchInOptions\<close>
  and so carries the source tag \<open>canonical\<close>.
\<close>

definition tryFuzzy :: "ScannedQuestion \<Rightarrow> jsval \<Rightarrow> error + MapResult option" where
  "tryFuzzy question profile =
     (case options question of
        None \<Rightarrow> Inr None
      | Some os \<Rightarrow>
          (if str_includes (toLowerCase (questionText question)) ''gender'' \<and>
              truthy (pget (pget profile ''personal'') ''gender'')
           then matchInOptions (js_String (pget (pget profile ''personal'') ''gender'')) (Some os) 0.9
           else Inr None))"

section \<open>Pattern storage\<close>

record AnswerMapping =
  canonicalValue :: string
  variants :: "string list"
  contextOptions :: "string list option"

datatype pattern_source = SourceAI | SourceManual | SourceAINew

text \<open>
  A stored pattern. \<open>pid\<close> is the field \<open>id\<close> of the source; \<open>isCustomIntent\<close> is the
  extra property that the learning step puts on the pattern of a new intent, which the
  object spread of \<open>addPattern\<close> copies into the store.
\<close>

record LearnedPattern =
  pid :: string
  questionPattern :: string
  intent :: string
  p_canonicalKey :: string
  answerMappings :: "AnswerMapping list option"
  p_fieldType :: string
  p_confidence :: real
  usageCount :: nat
  lastUsed :: string
  createdAt :: string
  p_source :: pattern_source
  synced :: "bool option"
  isCustomIntent :: bool

text \<open>The argument of \<open>addPattern\<close>: a pattern without id, usage count and time stamps.\<close>

record NewPattern =
  n_questionPattern :: string
  n_intent :: string
  n_canonicalKey :: string
  n_answerMappings :: "AnswerMapping list option"
  n_fieldType :: string
  n_confidence :: real
  n_source :: pattern_source
  n_isCustomIntent :: bool

text \<open>
  The pattern store is the list kept under \<open>learnedPatterns\<close> in the browser's local
  storage; reading and writing it are taken to succeed. The clock (\<open>now\<close>, the text of
  \<open>new Date().toISOString()\<close>) and the generated id (\<open>newId\<close>) come from outside.
\<close>

type_synonym store = "LearnedPattern list"

definition samePair :: "NewPattern \<Rightarrow> LearnedPattern \<Rightarrow> bool" where
  "samePair pattern p =
     (intent p = n_intent pattern \<and>
      toLowerCase (questionPattern p) = toLowerCase (n_questionPattern pattern))"

text \<open>
  The inner loop of the merge: push every variant of the new mapping that the existing
  mapping does not include yet.
\<close>

fun pushVariants :: "string list \<Rightarrow> string list \<Rightarrow> string list" where
  "pushVariants existing [] = existing"
| "pushVariants existing (v # vs) =
     (if v \<in> set existing then pushVariants existing vs else pushVariants (existing @ [v]) vs)"

text \<open>
  One step of the outer loop: merge \<open>newMapping\<close> into the first existing mapping with
  its canonical value, or push it when there is none.
\<close>

fun mergeMapping :: "AnswerMapping list \<Rightarrow> AnswerMapping \<Rightarrow> AnswerMapping list" where
  "mergeMapping [] newMapping = [newMapping]"
| "mergeMapping (m # ms) newMapping =
     (if canonicalValue m = canonicalValue newMapping
      then m\<lparr>variants := pushVariants (variants m) (variants newMapping)\<rparr> # ms
      else m # mergeMapping ms newMapping)"

definition mergeMappings :: "AnswerMapping list \<Rightarrow> AnswerMapping list \<Rightarrow> AnswerMapping list" where
  "mergeMappings existing new = foldl mergeMapping existing new"

definition mergeInto :: "string \<Rightarrow> NewPattern \<Rightarrow> LearnedPattern \<Rightarrow> LearnedPattern" where
  "mergeInto now pattern existing =
     (case (n_answerMappings pattern, answerMappings existing) of
        (Some new, Some old) \<Rightarrow>
          existing\<lparr>answerMappings := Some (mergeMappings old new), lastUsed := now, synced := Some False\<rparr>
      | _ \<Rightarrow> existing\<lparr>lastUsed := now, synced := Some False\<rparr>)"

definition newPattern :: "string \<Rightarrow> string \<Rightarrow> NewPattern \<Rightarrow> LearnedPattern" where
  "newPattern now newId pattern =
     \<lparr>pid = newId,
      questionPattern = n_questionPattern pattern,
      intent = n_intent pattern,
      p_canonicalKey = n_canonicalKey pattern,
      answerMappings = n_answerMappings pattern,
      p_fieldType = n_fieldType pattern,
      p_confidence = n_confidence pattern,
      usageCount = 0,
      lastUsed = now,
      createdAt = now,
      p_source = n_source pattern,
      synced = Some False,
      isCustomIntent = n_isCustomIntent pattern\<rparr>"

text \<open>
  \<open>addPattern\<close>: \<open>patterns.find\<close> takes the first stored pattern of the pair, which is
  then changed in place; without one the new pattern is pushed at the end.
\<close>

fun addPattern :: "string \<Rightarrow> string \<Rightarrow> NewPattern \<Rightarrow> store \<Rightarrow> store" where
  "addPattern now newId pattern [] = [newPattern now newId pattern]"
| "addPattern now newId pattern (p # ps) =
     (if samePair pattern p then mergeInto now pattern p # ps
      else p # addPattern now newId pattern ps)"

text \<open>
  \<open>calculateSimilarity\<close>: the share of the words of the first text that occur in the
  second. A split never gives an empty list, so the divisor is at least 1. The quotient
  is exact here; the quotient of the source, in double precision, compares with 0.7 in
  the same way for texts of any length that a page can have.
\<close>

definition calculateSimilarity :: "string \<Rightarrow> string \<Rightarrow> real" where
  "calculateSimilarity str1 str2 =
     (let words1 = split_ws str1; words2 = split_ws str2;
          matchedWords = length (filter (\<lambda>w. w \<in> set words2) words1)
      in real matchedWords / real (max (length words1) (length words2)))"

definition patternMatches :: "string \<Rightarrow> LearnedPattern \<Rightarrow> bool" where
  "patternMatches qLower pattern =
     (toLowerCase (questionPattern pattern) = qLower \<or>
      calculateSimilarity qLower (toLowerCase (questionPattern pattern)) \<ge> 0.7)"

definition searchPatterns :: "store \<Rightarrow> string \<Rightarrow> LearnedPattern option" where
  "searchPatterns patterns text = find (patternMatches (toLowerCase text)) patterns"

text \<open>
  \<open>incrementUsage\<close>: the first stored pattern with the id is changed and the store is
  saved; without one nothing is written.
\<close>

fun incrementUsage :: "string \<Rightarrow> string \<Rightarrow> store \<Rightarrow> store" where
  "incrementUsage now patternId [] = []"
| "incrementUsage now patternId (p # ps) =
     (if pid p = patternId then p\<lparr>usageCount := usageCount p + 1, lastUsed := now\<rparr> # ps
      else p # incrementUsage now patternId ps)"

text \<open>\<open>findPattern\<close> returns the pattern as it was read, before the usage count changed.\<close>

definition findPattern :: "string \<Rightarrow> store \<Rightarrow> string \<Rightarrow> LearnedPattern option \<times> store" where
  "findPattern now patterns text =
     (case searchPatterns patterns text of
        Some localMatch \<Rightarrow> (Some localMatch, incrementUsage now (pid localMatch) patterns)
      | None \<Rightarrow> (None, patterns))"

section \<open>Question mapper: the learned tier\<close>

definition learned_result :: "string \<Rightarrow> real \<Rightarrow> MapResult" where
  "learned_result a c =
     \<lparr>r_answer = a, r_source = Learned, r_confidence = c, r_fileName = None\<rparr>"

text \<open>The containment test that the learned tier uses between an option and a stored text.\<close>

definition containsEither :: "string \<Rightarrow> string \<Rightarrow> bool" where
  "containsEither v opt =
     (toLowerCase opt = toLowerCase v \<or>
      str_includes (toLowerCase opt) (toLowerCase v) \<or>
      str_includes (toLowerCase v) (toLowerCase opt))"

definition findBestVariant ::
  "string \<Rightarrow> AnswerMapping list \<Rightarrow> string list option \<Rightarrow> string option" where
  "findBestVariant cv mappings os =
     (case find (\<lambda>m. canonicalValue m = cv) mappings of
        None \<Rightarrow> None
      | Some mapping \<Rightarrow>
          (if opts_of os = [] then
             (case variants mapping of
                [] \<Rightarrow> Some cv
              | v # vs \<Rightarrow> Some (if v = [] then cv else v))
           else first_some (\<lambda>variant. find_truthy (containsEither variant) (opts_of os))
                  (variants mapping)))"

text \<open>
  \<open>tryLearned\<close>. The lookup changes the usage count of the pattern it finds, so the
  store is returned with the result.
\<close>

definition tryLearned ::
  "string \<Rightarrow> ScannedQuestion \<Rightarrow> jsval \<Rightarrow> store \<Rightarrow> MapResult option \<times> store" where
  "tryLearned now question profile st =
     (case findPattern now st (questionText question) of
        (None, st') \<Rightarrow> (None, st')
      | (Some pattern, st') \<Rightarrow>
          (let canonicalVal = getValueFromProfile profile (intent pattern);
               mappings = (case answerMappings pattern of None \<Rightarrow> [] | Some ms \<Rightarrow> ms);
               stored =
                 (if mappings \<noteq> [] \<and> options question \<noteq> None then
                    first_some
                      (\<lambda>variant. find_truthy (containsEither variant) (opts_of (options question)))
                      (concat (map variants mappings))
                  else None)
           in
           case stored of
             Some match \<Rightarrow> (Some (learned_result match (p_confidence pattern)), st')
           | None \<Rightarrow>
               (case canonicalVal of
                  None \<Rightarrow> (None, st')
                | Some cv \<Rightarrow>
                    (if cv = [] then (None, st')
                     else if mappings \<noteq> [] then
                       (case findBestVariant cv mappings (options question) of
                          Some a \<Rightarrow>
                            (if a \<noteq> [] then (Some (learned_result a (p_confidence pattern)), st')
                             else (None, st'))
                        | None \<Rightarrow> (None, st'))
                     else if opts_of (options question) \<noteq> [] then
                       (case find_truthy (containsEither cv) (opts_of (options question)) of
                          Some match \<Rightarrow> (Some (learned_result match (p_confidence pattern)), st')
                        | None \<Rightarrow> (None, st'))
                     else (Some (learned_result cv (p_confidence pattern)), st')))))"

text \<open>
  \<open>tryMapping\<close>: canonical, then learned, then fuzzy (only with options); the first tier
  that returns a result ends the search.
\<close>

definition tryMapping ::
  "string \<Rightarrow> ScannedQuestion \<Rightarrow> jsval \<Rightarrow> store \<Rightarrow> error + (MapResult option \<times> store)" where
  "tryMapping now question profile st =
     (case tryCanonical question profile of
        Inl e \<Rightarrow> Inl e
      | Inr (Some canonicalResult) \<Rightarrow> Inr (Some canonicalResult, st)
      | Inr None \<Rightarrow>
          (case tryLearned now question profile st of
             (Some learnedResult, st') \<Rightarrow> Inr (Some learnedResult, st')
           | (None, st') \<Rightarrow>
               (if opts_of (options question) \<noteq> [] then
                  (case tryFuzzy question profile of
                     Inl e \<Rightarrow> Inl e
                   | Inr fuzzyResult \<Rightarrow> Inr (fuzzyResult, st'))
                else Inr (None, st'))))"

section \<open>Question mapper: the AI tier\<close>

record MappedAnswer =
  m_selector :: string
  m_questionText :: string
  answer :: string
  source :: answer_source
  confidence :: real
  m_required :: bool
  m_fieldType :: string
  canonicalKey :: "string option"
  m_options :: "string list option"
  fileName :: "string option"
  m_isNewIntent :: bool
  m_suggestedIntentName :: "string option"

record ai_request =
  question :: string
  req_fieldType :: string
  req_options :: "string list"
  userProfile :: jsval

text \<open>
  The oracle's reply. A missing answer is the empty string (both are falsy), a missing
  confidence is \<open>None\<close>.
\<close>

record ai_response =
  ai_answer :: string
  ai_confidence :: "real option"
  ai_intent :: "string option"
  ai_isNewIntent :: bool
  ai_suggestedIntentName :: "string option"

text \<open>\<open>c || 0.8\<close> on a number that may be missing.\<close>

definition orDefault :: "real option \<Rightarrow> real" where
  "orDefault c = (case c of None \<Rightarrow> 0.8 | Some x \<Rightarrow> (if x = 0 then 0.8 else x))"

definition aiRequest :: "ScannedQuestion \<Rightarrow> jsval \<Rightarrow> ai_request" where
  "aiRequest q profile =
     \<lparr>question = questionText q,
      req_fieldType = fieldType q,
      req_options =
        (case options q of
           Some os \<Rightarrow> (if length os \<le> 20 then os else [])
         | None \<Rightarrow> []),
      userProfile = profile\<rparr>"

definition aiMapped :: "ScannedQuestion \<Rightarrow> ai_response \<Rightarrow> string \<Rightarrow> MappedAnswer" where
  "aiMapped q aiResponse finalAnswer =
     \<lparr>m_selector = selector q,
      m_questionText = questionText q,
      answer = finalAnswer,
      source = AI,
      confidence = orDefault (ai_confidence aiResponse),
      m_required = required q,
      m_fieldType = fieldType q,
      canonicalKey = ai_intent aiResponse,
      m_options = options q,
      fileName = None,
      m_isNewIntent = ai_isNewIntent aiResponse,
      m_suggestedIntentName =
        (if ai_isNewIntent aiResponse then ai_suggestedIntentName aiResponse else None)\<rparr>"

text \<open>
  One request of \<open>requestAIAnswers\<close>. \<open>askAI\<close> is the oracle; \<open>None\<close> is a failed call.
  The whole body is inside \<open>try\<close>, so a failed call and an error of the option matcher
  both give \<open>null\<close>.
\<close>

definition askOne ::
  "(ai_request \<Rightarrow> ai_response option) \<Rightarrow> jsval \<Rightarrow> ScannedQuestion \<Rightarrow> MappedAnswer option" where
  "askOne askAI profile q =
     (case askAI (aiRequest q profile) of
        None \<Rightarrow> None
      | Some aiResponse \<Rightarrow>
          (if ai_answer aiResponse = [] then None
           else if opts_of (options q) \<noteq> [] then
             (case find_truthy (\<lambda>opt. trim (toLowerCase opt) = trim (toLowerCase (ai_answer aiResponse)))
                     (opts_of (options q)) of
                Some exactMatch \<Rightarrow> Some (aiMapped q aiResponse exactMatch)
              | None \<Rightarrow>
                  (case fuzzyMatchOption (ai_answer aiResponse) (opts_of (options q)) of
                     Inl e \<Rightarrow> None
                   | Inr None \<Rightarrow> None
                   | Inr (Some fuzzyMatch) \<Rightarrow>
                       (if fuzzyMatch \<noteq> [] then Some (aiMapped q aiResponse fuzzyMatch) else None)))
           else Some (aiMapped q aiResponse (ai_answer aiResponse))))"

text \<open>All requests are made, and the \<open>null\<close> results are filtered out.\<close>

definition requestAIAnswers ::
  "(ai_request \<Rightarrow> ai_response option) \<Rightarrow> ScannedQuestion list \<Rightarrow> jsval \<Rightarrow> MappedAnswer list" where
  "requestAIAnswers askAI questions profile = List.map_filter (askOne askAI profile) questions"

section \<open>Question mapper: learning and the whole run\<close>

definition normalizeQuestion :: "string \<Rightarrow> string" where
  "normalizeQuestion text =
     trim (filter (\<lambda>c. c \<notin> set ''*?!'') (toLowerCase text))"

definition detectIntent :: "string \<Rightarrow> string \<Rightarrow> jsval \<Rightarrow> string option" where
  "detectIntent text ans profile =
     (let qLower = toLowerCase text;
          has = str_includes qLower;
          eeo = pget profile ''eeo'';
          personal = pget profile ''personal'';
          social = pget profile ''social''
      in
      if pget eeo ''gender'' = JStr ans then Some ''eeo.gender''
      else if pget eeo ''hispanic'' = JStr ans then Some ''eeo.hispanic''
      else if pget eeo ''veteran'' = JStr ans then Some ''eeo.veteran''
      else if pget eeo ''disability'' = JStr ans then Some ''eeo.disability''
      else if pget eeo ''race'' = JStr ans then Some ''eeo.race''
      else if pget personal ''firstName'' = JStr ans then Some ''personal.firstName''
      else if pget personal ''lastName'' = JStr ans then Some ''personal.lastName''
      else if pget personal ''email'' = JStr ans then Some ''personal.email''
      else if pget personal ''phone'' = JStr ans then Some ''personal.phone''
      else if pget personal ''city'' = JStr ans then Some ''personal.city''
      else if pget personal ''state'' = JStr ans then Some ''personal.state''
      else if pget personal ''country'' = JStr ans then Some ''personal.country''
      else if pget social ''linkedin'' = JStr ans then Some ''social.linkedin''
      else if pget social ''website'' = JStr ans then Some ''social.website''
      else if has ''gender'' \<or> has ''sex'' then Some ''eeo.gender''
      else if has ''hispanic'' \<or> has ''latino'' then Some ''eeo.hispanic''
      else if has ''veteran'' then Some ''eeo.veteran''
      else if has ''disability'' then Some ''eeo.disability''
      else if has ''race'' \<or> has ''ethnicity'' then Some ''eeo.race''
      else if has ''sponsor'' then Some ''workAuth.needsSponsorship''
      else if has ''authorized'' \<and> has ''work'' then Some ''workAuth.authorizedUS''
      else if has ''driver'' \<and> has ''license'' then Some ''workAuth.driverLicense''
      else if has ''linkedin'' then Some ''social.linkedin''
      else if has ''website'' \<or> has ''portfolio'' then Some ''social.website''
      else if has ''first name'' \<or> has ''given name'' then Some ''personal.firstName''
      else if has ''last name'' \<or> has ''family name'' \<or> has ''surname'' then
        Some ''personal.lastName''
      else if has ''email'' then Some ''personal.email''
      else if has ''phone'' \<or> has ''mobile'' then Some ''personal.phone''
      else None)"

definition learnedPatternFor ::
  "ScannedQuestion \<Rightarrow> MappedAnswer \<Rightarrow> string \<Rightarrow> pattern_source \<Rightarrow> bool \<Rightarrow>
   AnswerMapping list option \<Rightarrow> NewPattern" where
  "learnedPatternFor q ans i src custom mappings =
     \<lparr>n_questionPattern = normalizeQuestion (questionText q),
      n_intent = i,
      n_canonicalKey = i,
      n_answerMappings = mappings,
      n_fieldType = fieldType q,
      n_confidence = orDefault (Some (confidence ans)),
      n_source = src,
      n_isCustomIntent = custom\<rparr>"

text \<open>
  \<open>learnFromAIResponse\<close>. The intent is the one the oracle gave (kept as the answer's
  \<open>canonicalKey\<close>) or the one \<open>detectIntent\<close> finds; without an intent nothing is stored.
\<close>

definition learnFromAIResponse ::
  "string \<Rightarrow> string \<Rightarrow> ScannedQuestion \<Rightarrow> MappedAnswer \<Rightarrow> jsval \<Rightarrow> store \<Rightarrow> store" where
  "learnFromAIResponse now newId q ans profile st =
     (let given = (case canonicalKey ans of Some k \<Rightarrow> k \<noteq> [] | None \<Rightarrow> False) in
      if given \<and> m_isNewIntent ans then
        addPattern now newId
          (learnedPatternFor q ans (the (canonicalKey ans)) SourceAINew True
             (case options q of
                Some os \<Rightarrow>
                  Some [\<lparr>canonicalValue = answer ans, variants = [answer ans],
                         contextOptions = Some os\<rparr>]
              | None \<Rightarrow> None))
          st
      else
        (case (if given then canonicalKey ans
               else detectIntent (questionText q) (answer ans) profile) of
           None \<Rightarrow> st
         | Some i \<Rightarrow>
             (if i = [] then st
              else
                let valueToStore =
                      (case getValueFromProfile profile i of
                         Some cv \<Rightarrow> (if cv = [] then answer ans else cv)
                       | None \<Rightarrow> answer ans)
                in addPattern now newId
                     (learnedPatternFor q ans i SourceAI False
                        (Some [\<lparr>canonicalValue = valueToStore, variants = [answer ans],
                                contextOptions = Some (opts_of (options q))\<rparr>]))
                     st)))"

definition mapped :: "ScannedQuestion \<Rightarrow> MapResult \<Rightarrow> MappedAnswer" where
  "mapped q result =
     \<lparr>m_selector = selector q,
      m_questionText = questionText q,
      answer = r_answer result,
      source = r_source result,
      confidence = r_confidence result,
      m_required = required q,
      m_fieldType = fieldType q,
      canonicalKey = None,
      m_options = options q,
      fileName = r_fileName result,
      m_isNewIntent = False,
      m_suggestedIntentName = None\<rparr>"

text \<open>
  Phase 1 of \<open>processQuestions\<close>: the loop over the questions. It returns the answers
  mapped with confidence at least 0.85, the questions queued for the AI, and the store.
  An error thrown by a tier ends the loop and the whole call.
\<close>

fun phase1 ::
  "string \<Rightarrow> jsval \<Rightarrow> store \<Rightarrow> ScannedQuestion list \<Rightarrow>
   error + (MappedAnswer list \<times> ScannedQuestion list \<times> store)" where
  "phase1 now profile st [] = Inr ([], [], st)"
| "phase1 now profile st (q # qs) =
     (case tryMapping now q profile st of
        Inl e \<Rightarrow> Inl e
      | Inr (result, st1) \<Rightarrow>
          (case phase1 now profile st1 qs of
             Inl e \<Rightarrow> Inl e
           | Inr (mappedAnswers, unmappedForAI, st2) \<Rightarrow>
               (case result of
                  Some r \<Rightarrow>
                    (if r_confidence r \<ge> 0.85 then Inr (mapped q r # mappedAnswers, unmappedForAI, st2)
                     else Inr (mappedAnswers, q # unmappedForAI, st2))
                | None \<Rightarrow> Inr (mappedAnswers, q # unmappedForAI, st2))))"

text \<open>
  The learning loop pairs \<open>unmappedForAI[i]\<close> with \<open>aiAnswers[i]\<close> for every index at
  which an answer exists. \<open>newId\<close> gives the id generated in each step, by the index
  of the step.
\<close>

fun learnAll ::
  "string \<Rightarrow> (nat \<Rightarrow> string) \<Rightarrow> nat \<Rightarrow> jsval \<Rightarrow> (ScannedQuestion \<times> MappedAnswer) list \<Rightarrow>
   store \<Rightarrow> store" where
  "learnAll now newId i profile [] st = st"
| "learnAll now newId i profile ((q, ans) # rest) st =
     learnAll now newId (Suc i) profile rest (learnFromAIResponse now (newId i) q ans profile st)"

text \<open>
  \<open>loadProfile\<close> on what the local storage holds under the profile's key: \<open>None\<close> is a
  failed read, which is caught. It returns \<open>null\<close> or a truthy value.
\<close>

definition loadProfile :: "jsval option \<Rightarrow> jsval" where
  "loadProfile stored =
     (case stored of None \<Rightarrow> JNull | Some v \<Rightarrow> (if truthy v then v else JNull))"

definition processQuestions ::
  "(ai_request \<Rightarrow> ai_response option) \<Rightarrow> string \<Rightarrow> (nat \<Rightarrow> string) \<Rightarrow> jsval option \<Rightarrow>
   store \<Rightarrow> ScannedQuestion list \<Rightarrow> error + (MappedAnswer list \<times> store)" where
  "processQuestions askAI now newId stored st questions =
     (let profile = loadProfile stored in
      if \<not> truthy profile then Inl NoProfile
      else
        case phase1 now profile st questions of
          Inl e \<Rightarrow> Inl e
        | Inr (mappedAnswers, unmappedForAI, st1) \<Rightarrow>
            (if unmappedForAI \<noteq> [] then
               let aiAnswers = requestAIAnswers askAI unmappedForAI profile in
               Inr (mappedAnswers @ aiAnswers,
                    learnAll now newId 0 profile (zip unmappedForAI aiAnswers) st1)
             else Inr (mappedAnswers, st1)))"

section \<open>Fill executor\<close>

record ResolvedField =
  rf_questionText :: string
  rf_canonicalKey :: "string option"
  rf_fieldType :: string
  rf_value :: string
  rf_selector :: "string option"
  rf_options :: "string list option"
  rf_fileName :: "string option"

record FillPayload =
  url :: string
  payload_fields :: "ResolvedField list"
  jobId :: "string option"
  runId :: string

record FillResult =
  res_questionText :: string
  ok :: bool
  reason :: "string option"

text \<open>The message of \<open>reportFieldFailed\<close>.\<close>

record FailureReport =
  rep_runId :: string
  rep_url :: string
  rep_jobId :: "string option"
  code :: string
  rep_field :: ResolvedField

text \<open>
  The state of \<open>runAutofill\<close>: the itemized results, the two counters, the failure
  messages sent so far, and the page.
\<close>

record 'd run_state =
  results :: "FillResult list"
  successes :: nat
  failures :: nat
  reports :: "FailureReport list"
  page :: 'd

definition reportFieldFailed :: "FillPayload \<Rightarrow> ResolvedField \<Rightarrow> string \<Rightarrow> FailureReport" where
  "reportFieldFailed payload rf c =
     \<lparr>rep_runId = runId payload, rep_url = url payload, rep_jobId = jobId payload,
      code = c, rep_field = rf\<rparr>"

text \<open>
  The body of the loop of \<open>runAutofill\<close> for one field. \<open>bestMatchField\<close> looks the
  field up among the fields detected at the start; \<open>fillMatchedField\<close> fills and verifies
  on the page, catches every error, and says whether the fill succeeded.
\<close>

definition fillStep ::
  "(ResolvedField \<Rightarrow> 'm option) \<Rightarrow> ('d \<Rightarrow> 'm \<Rightarrow> ResolvedField \<Rightarrow> bool \<times> 'd) \<Rightarrow> FillPayload \<Rightarrow>
   ResolvedField \<Rightarrow> 'd run_state \<Rightarrow> 'd run_state" where
  "fillStep bestMatchField fillMatchedField payload rf s =
     (case bestMatchField rf of
        None \<Rightarrow>
          s\<lparr>results := results s @
               [\<lparr>res_questionText = rf_questionText rf, ok = False, reason = Some ''No DOM match''\<rparr>],
            reports := reports s @ [reportFieldFailed payload rf ''NO_DOM_MATCH''],
            failures := failures s + 1\<rparr>
      | Some match \<Rightarrow>
          (case fillMatchedField (page s) match rf of
             (True, d') \<Rightarrow>
               s\<lparr>results := results s @
                    [\<lparr>res_questionText = rf_questionText rf, ok = True, reason = None\<rparr>],
                 successes := successes s + 1,
                 page := d'\<rparr>
           | (False, d') \<Rightarrow>
               s\<lparr>results := results s @
                    [\<lparr>res_questionText = rf_questionText rf, ok = False, reason = None\<rparr>],
                 reports := reports s @ [reportFieldFailed payload rf ''FILL_VERIFY_FAILED''],
                 failures := failures s + 1,
                 page := d'\<rparr>))"

fun fillLoop ::
  "(ResolvedField \<Rightarrow> 'm option) \<Rightarrow> ('d \<Rightarrow> 'm \<Rightarrow> ResolvedField \<Rightarrow> bool \<times> 'd) \<Rightarrow> FillPayload \<Rightarrow>
   ResolvedField list \<Rightarrow> 'd run_state \<Rightarrow> 'd run_state" where
  "fillLoop bestMatchField fillMatchedField payload [] s = s"
| "fillLoop bestMatchField fillMatchedField payload (rf # rest) s =
     fillLoop bestMatchField fillMatchedField payload rest
       (fillStep bestMatchField fillMatchedField payload rf s)"

definition runAutofill ::
  "(ResolvedField \<Rightarrow> 'm option) \<Rightarrow> ('d \<Rightarrow> 'm \<Rightarrow> ResolvedField \<Rightarrow> bool \<times> 'd) \<Rightarrow> FillPayload \<Rightarrow>
   'd \<Rightarrow> 'd run_state" where
  "runAutofill bestMatchField fillMatchedField payload d =
     fillLoop bestMatchField fillMatchedField payload (payload_fields payload)
       \<lparr>results = [], successes = 0, failures = 0, reports = [], page = d\<rparr>"

section \<open>Properties: vocabulary\<close>

subsection \<open>Pattern storage\<close>

text \<open>
  A mapping grows when its canonical value and context stay and its variant list is
  extended at the end. A list of mappings grows when each mapping grows in its place
  and new mappings come after them. A stored pattern grows when only its mappings,
  \<open>lastUsed\<close> and \<open>synced\<close> change and the mappings that it has grow; a store grows when
  each pattern grows in its place and new patterns come after them.
\<close>

definition mappingGrows :: "AnswerMapping \<Rightarrow> AnswerMapping \<Rightarrow> bool" where
  "mappingGrows m m' =
     (canonicalValue m' = canonicalValue m \<and> contextOptions m' = contextOptions m \<and>
      prefix (variants m) (variants m'))"

fun mappingsGrow :: "AnswerMapping list \<Rightarrow> AnswerMapping list \<Rightarrow> bool" where
  "mappingsGrow [] ms' = True"
| "mappingsGrow (m # ms) [] = False"
| "mappingsGrow (m # ms) (m' # ms') = (mappingGrows m m' \<and> mappingsGrow ms ms')"

definition patternGrows :: "LearnedPattern \<Rightarrow> LearnedPattern \<Rightarrow> bool" where
  "patternGrows p p' =
     (p' = p\<lparr>answerMappings := answerMappings p', lastUsed := lastUsed p', synced := synced p'\<rparr> \<and>
      (case answerMappings p of
         None \<Rightarrow> True
       | Some ms \<Rightarrow> (case answerMappings p' of None \<Rightarrow> False | Some ms' \<Rightarrow> mappingsGrow ms ms')))"

fun storeGrows :: "store \<Rightarrow> store \<Rightarrow> bool" where
  "storeGrows [] st' = True"
| "storeGrows (p # ps) [] = False"
| "storeGrows (p # ps) (p' # ps') = (patternGrows p p' \<and> storeGrows ps ps')"

text \<open>
  A mapping is covered by a list of mappings when the first mapping of the list with
  its canonical value has all its variants.
\<close>

definition covered :: "AnswerMapping \<Rightarrow> AnswerMapping list \<Rightarrow> bool" where
  "covered n ms =
     (case find (\<lambda>m. canonicalValue m = canonicalValue n) ms of
        None \<Rightarrow> False
      | Some m \<Rightarrow> set (variants n) \<subseteq> set (variants m))"

text \<open>Two arguments of \<open>addPattern\<close> record the same observation.\<close>

definition sameObservation :: "NewPattern \<Rightarrow> NewPattern \<Rightarrow> bool" where
  "sameObservation a b =
     (n_intent a = n_intent b \<and>
      toLowerCase (n_questionPattern a) = toLowerCase (n_questionPattern b) \<and>
      n_answerMappings a = n_answerMappings b)"

definition variantsDistinct :: "AnswerMapping list option \<Rightarrow> bool" where
  "variantsDistinct ms =
     (case ms of None \<Rightarrow> True | Some xs \<Rightarrow> list_all (\<lambda>m. distinct (variants m)) xs)"

subsection \<open>Question mapper\<close>

text \<open>
  An answer is constrained by an option list when the list is empty or absent, or the
  answer is one of its entries.
\<close>

definition constrained :: "string list option \<Rightarrow> string \<Rightarrow> bool" where
  "constrained os a = (opts_of os = [] \<or> a \<in> set (opts_of os))"

text \<open>What a tier returns, if it returns a result, is tagged canonical with confidence 1.\<close>

definition canonicalCertain :: "error + MapResult option \<Rightarrow> bool" where
  "canonicalCertain x =
     (case x of Inr (Some r) \<Rightarrow> r_source r = Canonical \<and> r_confidence r = 1 | _ \<Rightarrow> True)"




text \<open>
  The rules of \<open>tryCanonical\<close> as a table, in the order of the source: \<open>ruleApplies\<close> is
  the condition of a rule on the question and the profile, \<open>canonicalRule\<close> the first
  rule whose condition holds. \<open>matcherValue\<close> is the profile value that the rules for
  country, gender, ethnicity, veteran status, disability and race hand to
  \<open>matchInOptions\<close>; the other rules return the value of the profile directly.
  \<open>ruleOutcome\<close> says what a rule makes of \<open>tryCanonical\<close>: the result of
  \<open>matchInOptions\<close> on that value and the question's options, or some result.
\<close>

datatype canonical_rule =
  FirstName | LastName | Email | Phone | Country | City | State | LinkedIn | Website |
  Resume | CoverLetter | DriverLicense | Sponsorship | AuthorizedUS | HasRelatives |
  PreviouslyApplied | Gender | Hispanic | Veteran | Disability | Race

definition canonicalRules :: "canonical_rule list" where
  "canonicalRules =
     [FirstName, LastName, Email, Phone, Country, City, State, LinkedIn, Website,
      Resume, CoverLetter, DriverLicense, Sponsorship, AuthorizedUS, HasRelatives,
      PreviouslyApplied, Gender, Hispanic, Veteran, Disability, Race]"

definition asks :: "ScannedQuestion \<Rightarrow> string \<Rightarrow> bool" where
  "asks q w = str_includes (toLowerCase (questionText q)) w"

definition reads :: "ScannedQuestion \<Rightarrow> string \<Rightarrow> bool" where
  "reads q w = (toLowerCase (questionText q) = w)"

definition fileFor :: "ScannedQuestion \<Rightarrow> string \<Rightarrow> bool" where
  "fileFor q w = (fieldType q = ''file'' \<and> str_includes (selector q) w)"

definition attachFor :: "ScannedQuestion \<Rightarrow> string \<Rightarrow> bool" where
  "attachFor q w =
     (fieldType q = ''file'' \<and> toLowerCase (questionText q) = ''attach'' \<and>
      str_includes (selector q) w)"

definition pfield :: "jsval \<Rightarrow> string \<Rightarrow> string \<Rightarrow> jsval" where
  "pfield profile section key = pget (pget profile section) key"

definition pdoc :: "jsval \<Rightarrow> string \<Rightarrow> string \<Rightarrow> jsval" where
  "pdoc profile doc key = pget (pget (pget profile ''documents'') doc) key"

fun ruleApplies :: "canonical_rule \<Rightarrow> ScannedQuestion \<Rightarrow> jsval \<Rightarrow> bool" where
  "ruleApplies FirstName q p =
     ((asks q ''first name'' \<or> reads q ''first name'') \<and> truthy (pfield p ''personal'' ''firstName''))"
| "ruleApplies LastName q p =
     ((asks q ''last name'' \<or> reads q ''last name'') \<and> truthy (pfield p ''personal'' ''lastName''))"
| "ruleApplies Email q p =
     ((asks q ''email'' \<or> reads q ''email'') \<and> truthy (pfield p ''personal'' ''email''))"
| "ruleApplies Phone q p =
     ((asks q ''phone'' \<or> reads q ''phone'') \<and> truthy (pfield p ''personal'' ''phone''))"
| "ruleApplies Country q p = (asks q ''country'' \<and> truthy (pfield p ''personal'' ''country''))"
| "ruleApplies City q p = (asks q ''city'' \<and> truthy (pfield p ''personal'' ''city''))"
| "ruleApplies State q p =
     (asks q ''state'' \<and> \<not> asks q ''united'' \<and> truthy (pfield p ''personal'' ''state''))"
| "ruleApplies LinkedIn q p =
     ((asks q ''linkedin'' \<or> asks q ''linked in'' \<or> asks q ''linkedin profile'' \<or>
       asks q ''linkedin url'' \<or> asks q ''professional profile'' \<or> reads q ''linkedin'') \<and>
      truthy (pfield p ''social'' ''linkedin''))"
| "ruleApplies Website q p =
     ((asks q ''website'' \<or> asks q ''portfolio'' \<or> asks q ''personal website'' \<or>
       asks q ''online portfolio'' \<or> reads q ''website'') \<and>
      truthy (pfield p ''social'' ''website''))"
| "ruleApplies Resume q p =
     ((fileFor q ''resume'' \<or> asks q ''resume'' \<or> asks q ''cv'' \<or> attachFor q ''resume'') \<and>
      truthy (pdoc p ''resume'' ''base64''))"
| "ruleApplies CoverLetter q p =
     ((fileFor q ''cover'' \<or> asks q ''cover letter'' \<or> asks q ''cover_letter'' \<or>
       attachFor q ''cover'') \<and>
      truthy (pdoc p ''coverLetter'' ''base64''))"
| "ruleApplies DriverLicense q p =
     (asks q ''driver'' \<and> asks q ''license'' \<and>
      pfield p ''workAuthorization'' ''driverLicense'' \<noteq> JUndefined)"
| "ruleApplies Sponsorship q p =
     (asks q ''sponsor'' \<and> (asks q ''visa'' \<or> asks q ''work'' \<or> asks q ''government'') \<and>
      pfield p ''workAuthorization'' ''needsSponsorship'' \<noteq> JUndefined)"
| "ruleApplies AuthorizedUS q p =
     ((asks q ''authorized'' \<or> asks q ''legally'') \<and> asks q ''work'' \<and>
      (asks q ''united states'' \<or> asks q ''u.s.'' \<or> asks q ''us'' \<or> asks q ''america'') \<and>
      pfield p ''workAuthorization'' ''authorizedUS'' \<noteq> JUndefined)"
| "ruleApplies HasRelatives q p =
     (((asks q ''relat'' \<and> asks q ''employee'') \<or> (asks q ''friend'' \<and> asks q ''work'')) \<and>
      pfield p ''application'' ''hasRelatives'' \<noteq> JUndefined)"
| "ruleApplies PreviouslyApplied q p =
     (asks q ''previously'' \<and> asks q ''appl'' \<and>
      pfield p ''application'' ''previouslyApplied'' \<noteq> JUndefined)"
| "ruleApplies Gender q p = (asks q ''gender'' \<and> truthy (pfield p ''eeo'' ''gender''))"
| "ruleApplies Hispanic q p =
     ((asks q ''hispanic'' \<or> asks q ''latino'') \<and> truthy (pfield p ''eeo'' ''hispanic''))"
| "ruleApplies Veteran q p = (asks q ''veteran'' \<and> truthy (pfield p ''eeo'' ''veteran''))"
| "ruleApplies Disability q p = (asks q ''disability'' \<and> truthy (pfield p ''eeo'' ''disability''))"
| "ruleApplies Race q p = (asks q ''race'' \<and> truthy (pfield p ''eeo'' ''race''))"

definition canonicalRule :: "ScannedQuestion \<Rightarrow> jsval \<Rightarrow> canonical_rule option" where
  "canonicalRule q p = find (\<lambda>rl. ruleApplies rl q p) canonicalRules"

fun matcherValue :: "canonical_rule \<Rightarrow> jsval \<Rightarrow> string option" where
  "matcherValue Country p = Some (js_String (pfield p ''personal'' ''country''))"
| "matcherValue Gender p = Some (js_String (pfield p ''eeo'' ''gender''))"
| "matcherValue Hispanic p = Some (js_String (pfield p ''eeo'' ''hispanic''))"
| "matcherValue Veteran p = Some (js_String (pfield p ''eeo'' ''veteran''))"
| "matcherValue Disability p = Some (js_String (pfield p ''eeo'' ''disability''))"
| "matcherValue Race p = Some (js_String (pfield p ''eeo'' ''race''))"
| "matcherValue rl p = None"

definition ruleOutcome ::
  "ScannedQuestion \<Rightarrow> jsval \<Rightarrow> canonical_rule \<Rightarrow> error + MapResult option \<Rightarrow> bool" where
  "ruleOutcome q p rl res =
     (case matcherValue rl p of
        Some v \<Rightarrow> res = matchInOptions v (options q) 1
      | None \<Rightarrow> (\<exists>r. res = Inr (Some r)))"

subsection \<open>Fill executor\<close>

text \<open>The reason code that goes with a failed field.\<close>

definition failure_code :: "(ResolvedField \<Rightarrow> 'm option) \<Rightarrow> ResolvedField \<Rightarrow> string" where
  "failure_code bestMatchField rf =
     (if bestMatchField rf = None then ''NO_DOM_MATCH'' else ''FILL_VERIFY_FAILED'')"

text \<open>
  The state of the loop after the fields \<open>fs\<close>: one result per field, in order; the
  counters count the results; one failure message per failed field, in order, with its
  reason code; a field without a DOM match has failed with the reason \<open>No DOM match\<close>.
\<close>

definition tally ::
  "(ResolvedField \<Rightarrow> 'm option) \<Rightarrow> FillPayload \<Rightarrow> ResolvedField list \<Rightarrow> 'd run_state \<Rightarrow> bool" where
  "tally bestMatchField payload fs s =
     (length (results s) = length fs \<and>
      map res_questionText (results s) = map rf_questionText fs \<and>
      successes s = length (filter ok (results s)) \<and>
      failures s = length (filter (\<lambda>r. \<not> ok r) (results s)) \<and>
      reports s = map (\<lambda>(rf, r). reportFieldFailed payload rf (failure_code bestMatchField rf))
                    (filter (\<lambda>(rf, r). \<not> ok r) (zip fs (results s))) \<and>
      list_all (\<lambda>(rf, r). bestMatchField rf = None \<longrightarrow>
                  \<not> ok r \<and> reason r = Some ''No DOM match'')
        (zip fs (results s)))"

text \<open>
  What the loop is to record for a field on the page \<open>d\<close>: without a DOM match, a
  failure with the reason \<open>No DOM match\<close>; with one, the verdict of \<open>fillMatchedField\<close> on
  that page. \<open>pageAfter\<close> is the page that the field leaves, \<open>pageTrace\<close> the page that
  each field of a list meets.
\<close>

definition expectedResult ::
  "(ResolvedField \<Rightarrow> 'm option) \<Rightarrow> ('d \<Rightarrow> 'm \<Rightarrow> ResolvedField \<Rightarrow> bool \<times> 'd) \<Rightarrow> 'd \<Rightarrow>
   ResolvedField \<Rightarrow> FillResult" where
  "expectedResult bestMatchField fillMatchedField d rf =
     (case bestMatchField rf of
        None \<Rightarrow> \<lparr>res_questionText = rf_questionText rf, ok = False, reason = Some ''No DOM match''\<rparr>
      | Some match \<Rightarrow>
          \<lparr>res_questionText = rf_questionText rf, ok = fst (fillMatchedField d match rf),
           reason = None\<rparr>)"

definition pageAfter ::
  "(ResolvedField \<Rightarrow> 'm option) \<Rightarrow> ('d \<Rightarrow> 'm \<Rightarrow> ResolvedField \<Rightarrow> bool \<times> 'd) \<Rightarrow> 'd \<Rightarrow>
   ResolvedField \<Rightarrow> 'd" where
  "pageAfter bestMatchField fillMatchedField d rf =
     (case bestMatchField rf of None \<Rightarrow> d | Some match \<Rightarrow> snd (fillMatchedField d match rf))"

fun pageTrace ::
  "(ResolvedField \<Rightarrow> 'm option) \<Rightarrow> ('d \<Rightarrow> 'm \<Rightarrow> ResolvedField \<Rightarrow> bool \<times> 'd) \<Rightarrow> 'd \<Rightarrow>
   ResolvedField list \<Rightarrow> 'd list" where
  "pageTrace bestMatchField fillMatchedField d [] = []"
| "pageTrace bestMatchField fillMatchedField d (rf # rest) =
     d # pageTrace bestMatchField fillMatchedField
           (pageAfter bestMatchField fillMatchedField d rf) rest"

section \<open>Scenarios\<close>

text \<open>Concrete pages, profiles, stores and oracles on which the properties are run.\<close>

definition ex_profile :: jsval where
  "ex_profile =
     JObj [(''personal'', JObj [(''firstName'', JStr ''Asha''), (''lastName'', JStr ''Rao''),
                                (''email'', JStr ''asha@example.com'')]),
           (''eeo'', JObj [(''gender'', JStr ''Male'')]),
           (''workAuthorization'', JObj [(''authorizedUS'', JBool True)])]"


definition ex_profile_odd :: jsval where
  "ex_profile_odd = JObj [(''eeo'', JObj [(''gender'', JStr ''Constructor'')])]"

definition ex_gender :: ScannedQuestion where
  "ex_gender =
     \<lparr>questionText = ''Gender'', fieldType = ''dropdown_custom'',
      options = Some [''Man'', ''Woman'', ''Non-binary'', ''Decline to self-identify''],
      required = False, selector = ''#gender''\<rparr>"



definition ex_notice :: ScannedQuestion where
  "ex_notice =
     \<lparr>questionText = ''Notice period'', fieldType = ''select'',
      options = Some [''Immediately'', ''2 weeks'', ''1 month''], required = False,
      selector = ''#notice''\<rparr>"

definition ex_country :: ScannedQuestion where
  "ex_country =
     \<lparr>questionText = ''Country of residence'', fieldType = ''dropdown_custom'',
      options = Some (replicate 21 ''Country''), required = False, selector = ''#country''\<rparr>"

definition ex_email :: ScannedQuestion where
  "ex_email =
     \<lparr>questionText = ''Email'', fieldType = ''email'', options = None, required = True,
      selector = ''#email''\<rparr>"

definition ex_phone :: ScannedQuestion where
  "ex_phone =
     \<lparr>questionText = ''Phone'', fieldType = ''tel'', options = None, required = False,
      selector = ''#phone''\<rparr>"

definition ex_email_again :: ScannedQuestion where
  "ex_email_again =
     \<lparr>questionText = '' EMAIL '', fieldType = ''text'', options = None, required = False,
      selector = ''#email2''\<rparr>"

text \<open>An oracle that never answers, and one that answers two questions.\<close>

definition ex_no_ai :: "ai_request \<Rightarrow> ai_response option" where
  "ex_no_ai r = None"


definition ex_ids :: "nat \<Rightarrow> string" where
  "ex_ids i = ''local_'' @ replicate (Suc i) (CHR ''i'')"

text \<open>
  A stored pattern for the question about the source of the application, one that
  contradicts the profile on the gender question, and one without answer mappings.
\<close>

definition ex_heard_pattern :: LearnedPattern where
  "ex_heard_pattern =
     \<lparr>pid = ''p1'', questionPattern = ''how did you hear about us'', intent = ''custom.source'',
      p_canonicalKey = ''custom.source'',
      answerMappings = Some [\<lparr>canonicalValue = ''LinkedIn'', variants = [''LinkedIn''],
                               contextOptions = Some [''LinkedIn'', ''Other'']\<rparr>],
      p_fieldType = ''select'', p_confidence = 0.9, usageCount = 0, lastUsed = ''t0'',
      createdAt = ''t0'', p_source = SourceAI, synced = Some False, isCustomIntent = False\<rparr>"

definition ex_gender_pattern :: LearnedPattern where
  "ex_gender_pattern =
     \<lparr>pid = ''p2'', questionPattern = ''gender'', intent = ''eeo.gender'',
      p_canonicalKey = ''eeo.gender'',
      answerMappings = Some [\<lparr>canonicalValue = ''Non-binary'', variants = [''Non-binary''],
                               contextOptions = Some [''Man'', ''Woman'', ''Non-binary'']\<rparr>],
      p_fieldType = ''select'', p_confidence = 0.95, usageCount = 0, lastUsed = ''t0'',
      createdAt = ''t0'', p_source = SourceAI, synced = Some False, isCustomIntent = False\<rparr>"

definition ex_bare_pattern :: LearnedPattern where
  "ex_bare_pattern =
     \<lparr>pid = ''local_i'', questionPattern = ''notice period'', intent = ''custom.notice'',
      p_canonicalKey = ''custom.notice'', answerMappings = None,
      p_fieldType = ''text'', p_confidence = 0.9, usageCount = 0, lastUsed = ''t0'',
      createdAt = ''t0'', p_source = SourceAINew, synced = Some False, isCustomIntent = True\<rparr>"

definition ex_observation :: NewPattern where
  "ex_observation =
     \<lparr>n_questionPattern = ''Notice Period'', n_intent = ''custom.notice'',
      n_canonicalKey = ''custom.notice'',
      n_answerMappings = Some [\<lparr>canonicalValue = ''2 weeks'', variants = [''2 weeks''],
                                 contextOptions = Some [''Immediately'', ''2 weeks'', ''1 month'']\<rparr>],
      n_fieldType = ''select'', n_confidence = 0.9, n_source = SourceAI,
      n_isCustomIntent = False\<rparr>"

text \<open>
  The notice period asked in a text field; an oracle that answers it under a new intent;
  and an observation for the gender question under a new variant.
\<close>

definition ex_notice_text :: ScannedQuestion where
  "ex_notice_text =
     \<lparr>questionText = ''Notice period'', fieldType = ''text'', options = None, required = False,
      selector = ''#notice''\<rparr>"

definition ex_notice_reply :: ai_response where
  "ex_notice_reply =
     \<lparr>ai_answer = ''2 weeks'', ai_confidence = Some 0.9, ai_intent = Some ''custom.notice'',
      ai_isNewIntent = True, ai_suggestedIntentName = Some ''Notice period''\<rparr>"

definition ex_ai_notice :: "ai_request \<Rightarrow> ai_response option" where
  "ex_ai_notice r = (if question r = ''Notice period'' then Some ex_notice_reply else None)"

definition ex_gender_observation :: NewPattern where
  "ex_gender_observation =
     \<lparr>n_questionPattern = ''Gender'', n_intent = ''eeo.gender'', n_canonicalKey = ''eeo.gender'',
      n_answerMappings = Some [\<lparr>canonicalValue = ''Non-binary'', variants = [''Nonbinary''],
                                 contextOptions = Some [''Male'', ''Female'', ''Nonbinary'']\<rparr>],
      n_fieldType = ''select'', n_confidence = 0.9, n_source = SourceAI,
      n_isCustomIntent = False\<rparr>"



text \<open>
  A fill run of three fields: the first has no DOM match, the second is filled, the
  third fails its verification.
\<close>

definition ex_field :: "string \<Rightarrow> ResolvedField" where
  "ex_field t =
     \<lparr>rf_questionText = t, rf_canonicalKey = None, rf_fieldType = ''TEXT'', rf_value = ''v'',
      rf_selector = None, rf_options = None, rf_fileName = None\<rparr>"

definition ex_payload :: FillPayload where
  "ex_payload =
     \<lparr>url = ''https://jobs.example/apply'',
      payload_fields = [ex_field ''Missing'', ex_field ''Name'', ex_field ''Reset''],
      jobId = None, runId = ''run1''\<rparr>"

definition ex_bestMatch :: "ResolvedField \<Rightarrow> unit option" where
  "ex_bestMatch rf = (if rf_questionText rf = ''Missing'' then None else Some ())"

definition ex_fill :: "nat \<Rightarrow> unit \<Rightarrow> ResolvedField \<Rightarrow> bool \<times> nat" where
  "ex_fill d m rf = (rf_questionText rf = ''Name'', Suc d)"

section \<open>Scanner: proofs\<close>

lemma dedup_from_keys:
  "distinct (map question_key (dedup_from seen qs)) \<and>
   set (map question_key (dedup_from seen qs)) \<inter> seen = {}"
  by (induction qs arbitrary: seen) auto

lemma dedup_from_index:
  "dedup_from seen qs =
     map (nth qs)
       (filter (\<lambda>i. question_key (qs ! i) \<notin> seen \<union> set (map question_key (take i qs)))
          [0..<length qs])"
proof (induction qs arbitrary: seen)
  case Nil
  show ?case by simp
next
  case (Cons q qs)
  have upt: "[0..<length (q # qs)] = 0 # map Suc [0..<length qs]"
    by (simp add: upt_conv_Cons map_Suc_upt del: upt_Suc)
  show ?case
  proof (cases "question_key q \<in> seen")
    case True
    then have "insert (question_key q) seen = seen" by auto
    with True show ?thesis
      unfolding upt
      by (auto simp: Cons.IH filter_map comp_def
               intro!: arg_cong [where f = "map ((!) qs)"] filter_cong)
  next
    case False
    then show ?thesis
      unfolding upt
      by (auto simp: Cons.IH filter_map comp_def
               intro!: arg_cong [where f = "map ((!) qs)"] filter_cong)
  qed
qed

text \<open>
  Claim C7. The list that \<open>scan\<close> returns has no two questions with the same key, the
  key being the question text in lower case and trimmed. It is the deduplicated list of
  the questions built from the fields, and deduplication keeps exactly the questions
  at the positions before which no question has the same key: the first occurrence
  stays, every later one goes.
\<close>

theorem scan_deduplicates:
  "distinct (map question_key (scan findAllFormFields processField d)) \<and>
   scan (Some flds) processField d = deduplicateQuestions (processFields processField d flds) \<and>
   deduplicateQuestions qs =
     map (nth qs)
       (filter (\<lambda>i. question_key (qs ! i) \<notin> set (map question_key (take i qs)))
          [0..<length qs])"
proof -
  have "distinct (map question_key (scan findAllFormFields processField d))"
    using dedup_from_keys [of "{}"]
    by (cases findAllFormFields) (simp_all add: scan_def deduplicateQuestions_def)
  moreover have "deduplicateQuestions qs =
     map (nth qs)
       (filter (\<lambda>i. question_key (qs ! i) \<notin> set (map question_key (take i qs)))
          [0..<length qs])"
    unfolding deduplicateQuestions_def using dedup_from_index [of "{}" qs] by simp
  ultimately show ?thesis by (simp add: scan_def)
qed

theorem scan_deduplicates_witness:
  "scan (Some [ex_email, ex_phone, ex_email_again]) (\<lambda>d f. (Some f, d)) () = [ex_email, ex_phone] \<and>
   distinct (map question_key [ex_email, ex_phone])"
proof -
  have e: "scan (Some [ex_email, ex_phone, ex_email_again]) (\<lambda>d f. (Some f, d)) ()
             = [ex_email, ex_phone]"
    by code_simp
  from scan_deduplicates [of "Some [ex_email, ex_phone, ex_email_again]" "\<lambda>d f. (Some f, d)" "()"]
  show ?thesis unfolding e by simp
qed




section \<open>AI tier: the request\<close>

lemma askOne_cong:
  "askAI (aiRequest q profile) = askAI' (aiRequest q profile) \<Longrightarrow>
   askOne askAI profile q = askOne askAI' profile q"
  by (simp add: askOne_def)

lemma requestAIAnswers_cong:
  "(\<forall>q \<in> set qs. askAI (aiRequest q profile) = askAI' (aiRequest q profile)) \<Longrightarrow>
   requestAIAnswers askAI qs profile = requestAIAnswers askAI' qs profile"
proof (induction qs)
  case Nil
  show ?case by (simp add: requestAIAnswers_def List.map_filter_simps)
next
  case (Cons q qs)
  have h: "askOne askAI profile q = askOne askAI' profile q"
    using Cons.prems by (intro askOne_cong) simp
  have t: "requestAIAnswers askAI qs profile = requestAIAnswers askAI' qs profile"
    using Cons by simp
  show ?case
    unfolding requestAIAnswers_def
    by (simp add: List.map_filter_simps h t [unfolded requestAIAnswers_def] split: option.splits)
qed

text \<open>
  Claim C9. The request that \<open>requestAIAnswers\<close> sends for a question carries the
  question's option list exactly when the list exists and has at most 20 entries; when
  the list is absent or longer, the request carries the empty list. The oracle is
  consulted at these requests only: two oracles that agree on them give the same answers.
\<close>

theorem aiRequest_options_bounded:
  "(Some (req_options (aiRequest q profile)) = options q \<longleftrightarrow>
      (\<exists>os. options q = Some os \<and> length os \<le> 20)) \<and>
   (options q = None \<or> (\<exists>os. options q = Some os \<and> length os > 20)
      \<longrightarrow> req_options (aiRequest q profile) = []) \<and>
   ((\<forall>x \<in> set qs. askAI (aiRequest x profile) = askAI' (aiRequest x profile)) \<longrightarrow>
      requestAIAnswers askAI qs profile = requestAIAnswers askAI' qs profile)"
proof -
  have "Some (req_options (aiRequest q profile)) = options q \<longleftrightarrow>
      (\<exists>os. options q = Some os \<and> length os \<le> 20)"
    by (auto simp: aiRequest_def split: option.splits)
  moreover have "options q = None \<or> (\<exists>os. options q = Some os \<and> length os > 20)
      \<longrightarrow> req_options (aiRequest q profile) = []"
    by (auto simp: aiRequest_def split: option.splits)
  ultimately show ?thesis using requestAIAnswers_cong [of qs askAI profile askAI'] by blast
qed

theorem aiRequest_options_bounded_witness:
  "options ex_country = Some (replicate 21 ''Country'') \<and>
   length (replicate 21 ''Country'') > 20 \<and>
   req_options (aiRequest ex_country ex_profile) = [] \<and>
   length (the (options ex_gender)) \<le> 20 \<and>
   Some (req_options (aiRequest ex_gender ex_profile)) = options ex_gender"
proof -
  have c: "options ex_country = Some (replicate 21 ''Country'')"
    by (simp add: ex_country_def)
  have g: "options ex_gender = Some [''Man'', ''Woman'', ''Non-binary'', ''Decline to self-identify'']"
    by (simp add: ex_gender_def)
  from aiRequest_options_bounded [of ex_country ex_profile "[]" ex_no_ai ex_no_ai] c
  have 1: "req_options (aiRequest ex_country ex_profile) = []" by simp
  from aiRequest_options_bounded [of ex_gender ex_profile "[]" ex_no_ai ex_no_ai] g
  have 2: "Some (req_options (aiRequest ex_gender ex_profile)) = options ex_gender" by simp
  from c g 1 2 show ?thesis by simp
qed


section \<open>Fill executor: proofs\<close>

lemma tally_step:
  "tally bm payload fs s \<Longrightarrow> tally bm payload (fs @ [rf]) (fillStep bm fm payload rf s)"
  unfolding tally_def fillStep_def
  by (cases "bm rf"; cases "fm (page s) (the (bm rf)) rf"; cases "fst (fm (page s) (the (bm rf)) rf)")
     (auto simp: failure_code_def)

lemma tally_loop:
  "tally bm payload pre s \<Longrightarrow> tally bm payload (pre @ fs) (fillLoop bm fm payload fs s)"
proof (induction fs arbitrary: pre s)
  case Nil
  then show ?case by simp
next
  case (Cons rf rest)
  from Cons.IH [OF tally_step [OF Cons.prems, of rf fm]] show ?case by simp
qed

lemma tally_runAutofill:
  "tally bm payload (payload_fields payload) (runAutofill bm fm payload d)"
  unfolding runAutofill_def
  using tally_loop [of bm payload "[]" _ "payload_fields payload" fm]
  by (simp add: tally_def)

lemma fillStep_expected:
  "results (fillStep bm fm payload rf s) = results s @ [expectedResult bm fm (page s) rf] \<and>
   page (fillStep bm fm payload rf s) = pageAfter bm fm (page s) rf"
  by (cases "bm rf"; cases "fm (page s) (the (bm rf)) rf"; cases "fst (fm (page s) (the (bm rf)) rf)")
     (auto simp: fillStep_def expectedResult_def pageAfter_def)

lemma fillLoop_expected:
  "results (fillLoop bm fm payload fs s) =
     results s @ map (\<lambda>(rf, d). expectedResult bm fm d rf) (zip fs (pageTrace bm fm (page s) fs)) \<and>
   page (fillLoop bm fm payload fs s) = foldl (pageAfter bm fm) (page s) fs"
proof (induction fs arbitrary: s)
  case Nil
  show ?case by simp
next
  case (Cons rf rest)
  show ?case
    using Cons.IH [of "fillStep bm fm payload rf s"] fillStep_expected [of bm fm payload rf s]
    by simp
qed

lemma runAutofill_expected:
  "results (runAutofill bm fm payload d) =
     map (\<lambda>(rf, p). expectedResult bm fm p rf)
       (zip (payload_fields payload) (pageTrace bm fm d (payload_fields payload))) \<and>
   page (runAutofill bm fm payload d) = foldl (pageAfter bm fm) d (payload_fields payload)"
  unfolding runAutofill_def
  using fillLoop_expected [of bm fm payload "payload_fields payload"
      "\<lparr>results = [], successes = 0, failures = 0, reports = [], page = d\<rparr>"]
  by simp

text \<open>
  Claim C6. \<open>runAutofill\<close> goes through every field of the payload: it leaves one
  itemized result per field, in the order of the fields and with the field's question
  text; the two counters count the succeeded and the failed results, so they add up to
  the number of fields; every failed field is reported once, in order, with the code
  \<open>NO_DOM_MATCH\<close> when no DOM element matched it and \<open>FILL_VERIFY_FAILED\<close> when the fill of
  the matched element did not succeed; a field without a DOM match has failed. The
  result of each field is the expected one on the page as the fields before it left
  it: a failure with the reason \<open>No DOM match\<close> when no DOM element matches, and otherwise
  a success exactly when \<open>fillMatchedField\<close> says that the fill is verified. The page
  at the end is the page after all the fills.
\<close>

theorem runAutofill_batch:
  "length (results (runAutofill bm fm payload d)) = length (payload_fields payload) \<and>
   map res_questionText (results (runAutofill bm fm payload d)) =
     map rf_questionText (payload_fields payload) \<and>
   successes (runAutofill bm fm payload d) + failures (runAutofill bm fm payload d) =
     length (payload_fields payload) \<and>
   successes (runAutofill bm fm payload d) =
     length (filter ok (results (runAutofill bm fm payload d))) \<and>
   reports (runAutofill bm fm payload d) =
     map (\<lambda>(rf, r). reportFieldFailed payload rf (failure_code bm rf))
       (filter (\<lambda>(rf, r). \<not> ok r)
          (zip (payload_fields payload) (results (runAutofill bm fm payload d)))) \<and>
   list_all (\<lambda>(rf, r). bm rf = None \<longrightarrow> \<not> ok r \<and> reason r = Some ''No DOM match'')
     (zip (payload_fields payload) (results (runAutofill bm fm payload d))) \<and>
   results (runAutofill bm fm payload d) =
     map (\<lambda>(rf, p). expectedResult bm fm p rf)
       (zip (payload_fields payload) (pageTrace bm fm d (payload_fields payload))) \<and>
   page (runAutofill bm fm payload d) = foldl (pageAfter bm fm) d (payload_fields payload)"
proof -
  let ?s = "runAutofill bm fm payload d"
  have t: "tally bm payload (payload_fields payload) ?s" by (rule tally_runAutofill)
  have "successes ?s + failures ?s = length (results ?s)"
    using t sum_length_filter_compl [of ok "results ?s"] by (simp add: tally_def)
  with t runAutofill_expected [of bm fm payload d] show ?thesis by (simp add: tally_def)
qed

theorem runAutofill_batch_witness:
  "ex_bestMatch (ex_field ''Missing'') = None \<and>
   ex_bestMatch (ex_field ''Reset'') = Some () \<and>
   pageTrace ex_bestMatch ex_fill 0 (payload_fields ex_payload) = [0, 0, 1] \<and>
   fst (ex_fill 1 () (ex_field ''Reset'')) = False \<and>
   results (runAutofill ex_bestMatch ex_fill ex_payload 0) =
     [\<lparr>res_questionText = ''Missing'', ok = False, reason = Some ''No DOM match''\<rparr>,
      \<lparr>res_questionText = ''Name'', ok = True, reason = None\<rparr>,
      \<lparr>res_questionText = ''Reset'', ok = False, reason = None\<rparr>] \<and>
   map code (reports (runAutofill ex_bestMatch ex_fill ex_payload 0)) =
     [''NO_DOM_MATCH'', ''FILL_VERIFY_FAILED''] \<and>
   successes (runAutofill ex_bestMatch ex_fill ex_payload 0) +
     failures (runAutofill ex_bestMatch ex_fill ex_payload 0) = 3 \<and>
   page (runAutofill ex_bestMatch ex_fill ex_payload 0) = 2"
proof -
  have f: "payload_fields ex_payload = [ex_field ''Missing'', ex_field ''Name'', ex_field ''Reset'']"
    by (simp add: ex_payload_def)
  have b: "ex_bestMatch (ex_field ''Missing'') = None"
          "ex_bestMatch (ex_field ''Name'') = Some ()"
          "ex_bestMatch (ex_field ''Reset'') = Some ()"
    by (simp_all add: ex_bestMatch_def ex_field_def)
  have v: "fst (ex_fill 1 () (ex_field ''Reset'')) = False"
    by (simp add: ex_fill_def ex_field_def)
  have tr: "pageTrace ex_bestMatch ex_fill 0 (payload_fields ex_payload) = [0, 0, 1]"
    by code_simp
  have e: "map (\<lambda>(rf, p). expectedResult ex_bestMatch ex_fill p rf)
             (zip (payload_fields ex_payload) [0, 0, 1]) =
     [\<lparr>res_questionText = ''Missing'', ok = False, reason = Some ''No DOM match''\<rparr>,
      \<lparr>res_questionText = ''Name'', ok = True, reason = None\<rparr>,
      \<lparr>res_questionText = ''Reset'', ok = False, reason = None\<rparr>]"
    by code_simp
  have pg: "foldl (pageAfter ex_bestMatch ex_fill) 0 (payload_fields ex_payload) = 2"
    by code_simp
  note inst = runAutofill_batch [of ex_bestMatch ex_fill ex_payload 0]
  from inst have r: "results (runAutofill ex_bestMatch ex_fill ex_payload 0) =
     [\<lparr>res_questionText = ''Missing'', ok = False, reason = Some ''No DOM match''\<rparr>,
      \<lparr>res_questionText = ''Name'', ok = True, reason = None\<rparr>,
      \<lparr>res_questionText = ''Reset'', ok = False, reason = None\<rparr>]"
    unfolding tr e by (elim conjE)
  from inst have p: "page (runAutofill ex_bestMatch ex_fill ex_payload 0) = 2"
    unfolding pg by (elim conjE)
  from inst have rest:
    "map code (reports (runAutofill ex_bestMatch ex_fill ex_payload 0)) =
       [''NO_DOM_MATCH'', ''FILL_VERIFY_FAILED''] \<and>
     successes (runAutofill ex_bestMatch ex_fill ex_payload 0) +
       failures (runAutofill ex_bestMatch ex_fill ex_payload 0) = 3"
    unfolding r f by (simp add: b failure_code_def reportFieldFailed_def)
  from b v tr r p rest show ?thesis by simp
qed

section \<open>Pattern storage: proofs\<close>

lemma find_Some_nth: "find P xs = Some x \<Longrightarrow> \<exists>i < length xs. xs ! i = x"
  unfolding find_Some_iff by blast

lemma incrementUsage_distinct:
  "distinct (map pid ps) \<Longrightarrow> i < length ps \<Longrightarrow>
   incrementUsage now (pid (ps ! i)) ps =
     ps[i := (ps ! i)\<lparr>usageCount := usageCount (ps ! i) + 1, lastUsed := now\<rparr>]"
proof (induction ps arbitrary: i)
  case Nil
  then show ?case by simp
next
  case (Cons p ps)
  show ?case
  proof (cases i)
    case 0
    then show ?thesis by simp
  next
    case (Suc k)
    from Cons.prems Suc have k: "k < length ps" and dp: "distinct (map pid ps)" by simp_all
    from Cons.prems Suc k have ne: "pid p \<noteq> pid (ps ! k)" by auto
    from Cons.IH [OF dp k] ne Suc show ?thesis by simp
  qed
qed

text \<open>
  The ids of the store stay distinct: a lookup keeps every id, and \<open>addPattern\<close> keeps
  them and adds at most the generated one.
\<close>

lemma incrementUsage_ids: "map pid (incrementUsage now i ps) = map pid ps"
  by (induction ps) simp_all

lemma addPattern_ids:
  "map pid (addPattern now newId pattern st) = map pid st \<or>
   map pid (addPattern now newId pattern st) = map pid st @ [newId]"
  by (induction st) (auto simp: mergeInto_def newPattern_def split: option.splits)

lemma addPattern_ids_distinct:
  "distinct (map pid st) \<Longrightarrow> newId \<notin> set (map pid st) \<Longrightarrow>
   distinct (map pid (addPattern now newId pattern st))"
  using addPattern_ids [of now newId pattern st] by auto

text \<open>
  Claim C10. On a store whose patterns have distinct ids, as generated ids are, a
  successful \<open>findPattern\<close> changes the store at one position only, the position of
  the pattern it found and returns: there the usage count goes up by one and \<open>lastUsed\<close>
  becomes the current time, and every other field of that pattern stays. All other
  patterns stay. An unsuccessful lookup returns no pattern and the store as it was.
\<close>

theorem findPattern_frame:
  "distinct (map pid patterns) \<Longrightarrow>
   (case searchPatterns patterns qt of
      None \<Rightarrow> findPattern now patterns qt = (None, patterns)
    | Some m \<Rightarrow>
        (\<exists>i < length patterns. patterns ! i = m \<and>
           findPattern now patterns qt =
             (Some m, patterns[i := m\<lparr>usageCount := usageCount m + 1, lastUsed := now\<rparr>])))"
proof (cases "searchPatterns patterns qt")
  case None
  then show ?thesis by (simp add: findPattern_def)
next
  case (Some m)
  assume d: "distinct (map pid patterns)"
  from Some have "find (patternMatches (toLowerCase qt)) patterns = Some m"
    by (simp add: searchPatterns_def)
  from find_Some_nth [OF this] obtain i where i: "i < length patterns" "patterns ! i = m"
    by blast
  have r: "findPattern now patterns qt = (Some m, incrementUsage now (pid m) patterns)"
    using Some by (simp add: findPattern_def)
  have u: "incrementUsage now (pid m) patterns =
           patterns[i := m\<lparr>usageCount := usageCount m + 1, lastUsed := now\<rparr>]"
    using incrementUsage_distinct [OF d i(1), of now] unfolding i(2) .
  have "\<exists>i < length patterns. patterns ! i = m \<and>
           findPattern now patterns qt =
             (Some m, patterns[i := m\<lparr>usageCount := usageCount m + 1, lastUsed := now\<rparr>])"
    unfolding r u using i by (intro exI [of _ i] conjI refl)
  then show ?thesis unfolding Some by simp
qed

theorem findPattern_frame_witness:
  "distinct (map pid [ex_heard_pattern, ex_gender_pattern]) \<and>
   findPattern ''t1'' [ex_heard_pattern, ex_gender_pattern] ''Gender'' =
     (Some ex_gender_pattern,
      [ex_heard_pattern, ex_gender_pattern\<lparr>usageCount := 1, lastUsed := ''t1''\<rparr>]) \<and>
   findPattern ''t1'' [ex_heard_pattern, ex_gender_pattern] ''Salary'' =
     (None, [ex_heard_pattern, ex_gender_pattern])"
proof -
  let ?st = "[ex_heard_pattern, ex_gender_pattern]"
  have d: "distinct (map pid ?st)"
    by (simp add: ex_heard_pattern_def ex_gender_pattern_def)
  have s1: "searchPatterns ?st ''Gender'' = Some ex_gender_pattern" by code_simp
  have s2: "searchPatterns ?st ''Salary'' = None" by code_simp
  have ne: "ex_heard_pattern \<noteq> ex_gender_pattern"
    by (simp add: ex_heard_pattern_def ex_gender_pattern_def)
  have u: "usageCount ex_gender_pattern = 0" by (simp add: ex_gender_pattern_def)
  have "\<exists>i < length ?st. ?st ! i = ex_gender_pattern \<and>
          findPattern ''t1'' ?st ''Gender'' =
            (Some ex_gender_pattern,
             ?st[i := ex_gender_pattern\<lparr>usageCount := usageCount ex_gender_pattern + 1,
                                        lastUsed := ''t1''\<rparr>])"
    using findPattern_frame [where qt = "''Gender''" and now = "''t1''", OF d]
    unfolding s1 option.case .
  then obtain i where
    all: "i < length ?st \<and> ?st ! i = ex_gender_pattern \<and>
          findPattern ''t1'' ?st ''Gender'' =
            (Some ex_gender_pattern,
             ?st[i := ex_gender_pattern\<lparr>usageCount := usageCount ex_gender_pattern + 1,
                                        lastUsed := ''t1''\<rparr>])" ..
  from all have i: "i < 2" "?st ! i = ex_gender_pattern" by simp_all
  from all have f: "findPattern ''t1'' ?st ''Gender'' =
            (Some ex_gender_pattern,
             ?st[i := ex_gender_pattern\<lparr>usageCount := usageCount ex_gender_pattern + 1,
                                        lastUsed := ''t1''\<rparr>])" by (elim conjE)
  from i ne have i1: "i = Suc 0" by (cases i) auto
  from f u have 1: "findPattern ''t1'' ?st ''Gender'' =
     (Some ex_gender_pattern,
      [ex_heard_pattern, ex_gender_pattern\<lparr>usageCount := 1, lastUsed := ''t1''\<rparr>])"
    unfolding i1 by simp
  from findPattern_frame [where qt = "''Salary''" and now = "''t1''", OF d]
  have 2: "findPattern ''t1'' ?st ''Salary'' = (None, ?st)"
    unfolding s2 by simp
  from d 1 2 show ?thesis by simp
qed


section \<open>Pattern storage: merging\<close>

lemma pushVariants_prefix: "prefix existing (pushVariants existing vs)"
proof (induction vs arbitrary: existing)
  case Nil
  show ?case by simp
next
  case (Cons v vs)
  have "prefix existing (pushVariants (existing @ [v]) vs)"
    using Cons [of "existing @ [v]"] by (metis append_prefixD)
  with Cons [of existing] show ?case by simp
qed

lemma set_pushVariants: "set (pushVariants existing vs) = set existing \<union> set vs"
  by (induction vs arbitrary: existing) auto

lemma distinct_pushVariants: "distinct existing \<Longrightarrow> distinct (pushVariants existing vs)"
  by (induction vs arbitrary: existing) auto

lemma pushVariants_id: "set vs \<subseteq> set existing \<Longrightarrow> pushVariants existing vs = existing"
  by (induction vs arbitrary: existing) auto

lemma mappingGrows_refl: "mappingGrows m m"
  by (simp add: mappingGrows_def)

lemma mappingGrows_trans: "mappingGrows a b \<Longrightarrow> mappingGrows b c \<Longrightarrow> mappingGrows a c"
  by (auto simp: mappingGrows_def intro: prefix_order.trans)

lemma mappingsGrow_refl: "mappingsGrow ms ms"
  by (induction ms) (simp_all add: mappingGrows_refl)

lemma mappingsGrow_trans:
  "mappingsGrow a b \<Longrightarrow> mappingsGrow b c \<Longrightarrow> mappingsGrow a c"
proof (induction a b arbitrary: c rule: mappingsGrow.induct)
  case (1 ms')
  show ?case by simp
next
  case (2 m ms)
  then show ?case by simp
next
  case (3 m ms m' ms')
  then show ?case by (cases c) (auto intro: mappingGrows_trans)
qed

lemma mergeMapping_grows: "mappingsGrow ms (mergeMapping ms n)"
  by (induction ms) (auto simp: mappingGrows_def pushVariants_prefix mappingsGrow_refl)

lemma mergeMappings_grows: "mappingsGrow ms (mergeMappings ms new)"
  unfolding mergeMappings_def
proof (induction new arbitrary: ms)
  case Nil
  show ?case by (simp add: mappingsGrow_refl)
next
  case (Cons n new)
  from mappingsGrow_trans [OF mergeMapping_grows Cons [of "mergeMapping ms n"]]
  show ?case by simp
qed

lemma patternGrows_refl: "patternGrows p p"
  by (auto simp: patternGrows_def mappingsGrow_refl split: option.splits)

lemma storeGrows_refl: "storeGrows st st"
  by (induction st) (simp_all add: patternGrows_refl)

lemma mergeInto_grows: "patternGrows p (mergeInto now pattern p)"
  by (auto simp: patternGrows_def mergeInto_def mergeMappings_grows mappingsGrow_refl
           split: option.splits)

lemma addPattern_grows: "storeGrows st (addPattern now newId pattern st)"
  by (induction st) (simp_all add: mergeInto_grows storeGrows_refl patternGrows_refl)

lemma samePair_mergeInto: "samePair pattern (mergeInto now pattern' p) = samePair pattern p"
  by (simp add: samePair_def mergeInto_def split: option.splits)

lemma samePair_newPattern: "samePair pattern (newPattern now newId pattern)"
  by (simp add: samePair_def newPattern_def)

lemma addPattern_count:
  "length (filter (samePair pattern) (addPattern now newId pattern st)) =
     max 1 (length (filter (samePair pattern) st))"
  by (induction st) (simp_all add: samePair_mergeInto samePair_newPattern)

lemma addPattern_others:
  "filter (\<lambda>p. \<not> samePair pattern p) (addPattern now newId pattern st) =
     filter (\<lambda>p. \<not> samePair pattern p) st"
  by (induction st) (simp_all add: samePair_mergeInto samePair_newPattern)

lemma addPattern_find:
  "find (samePair pattern) st = Some p \<Longrightarrow>
   find (samePair pattern) (addPattern now newId pattern st) = Some (mergeInto now pattern p)"
  by (induction st) (auto simp: samePair_mergeInto)

text \<open>A second merge of the same mappings changes nothing.\<close>

lemma covered_mergeMapping_id: "covered n ms \<Longrightarrow> mergeMapping ms n = ms"
  by (induction ms) (auto simp: covered_def pushVariants_id split: if_splits)

lemma covered_after_merge: "covered n (mergeMapping ms n)"
  by (induction ms) (auto simp: covered_def set_pushVariants)

lemma covered_mono: "covered n ms \<Longrightarrow> covered n (mergeMapping ms n')"
  by (induction ms) (auto simp: covered_def set_pushVariants split: if_splits)

lemma all_covered_foldl:
  "(\<forall>n \<in> set pre. covered n ms) \<Longrightarrow>
   (\<forall>n \<in> set pre \<union> set new. covered n (foldl mergeMapping ms new))"
proof (induction new arbitrary: ms pre)
  case Nil
  then show ?case by simp
next
  case (Cons a new)
  have "\<forall>n \<in> set (a # pre). covered n (mergeMapping ms a)"
    using Cons.prems by (auto simp: covered_after_merge covered_mono)
  from Cons.IH [OF this] show ?case by simp
qed

lemma foldl_covered_id:
  "(\<forall>n \<in> set new. covered n ms) \<Longrightarrow> foldl mergeMapping ms new = ms"
  by (induction new) (simp_all add: covered_mergeMapping_id)

lemma mergeMappings_covers: "\<forall>n \<in> set new. covered n (mergeMappings old new)"
  using all_covered_foldl [of "[]" old new] by (simp add: mergeMappings_def)

lemma mergeMappings_idem:
  "mergeMappings (mergeMappings old new) new = mergeMappings old new"
  using foldl_covered_id [OF mergeMappings_covers [of new old]]
  by (simp add: mergeMappings_def)

lemma sameObservation_samePair:
  "sameObservation a b \<Longrightarrow> samePair b p = samePair a p"
  by (auto simp: sameObservation_def samePair_def)

lemma mergeInto_twice:
  "n_answerMappings pattern' = n_answerMappings pattern \<Longrightarrow>
   mergeInto now' pattern' (mergeInto now pattern p) = mergeInto now' pattern p"
  by (cases "n_answerMappings pattern"; cases "answerMappings p")
     (simp_all add: mergeInto_def mergeMappings_idem)

lemma addPattern_twice_existing:
  "list_ex (samePair pattern) st \<Longrightarrow> sameObservation pattern pattern' \<Longrightarrow>
   addPattern now' newId' pattern' (addPattern now newId pattern st) =
     addPattern now' newId pattern st"
proof (induction st)
  case Nil
  then show ?case by simp
next
  case (Cons p ps)
  have sp: "\<And>x. samePair pattern' x = samePair pattern x"
    using Cons.prems(2) by (rule sameObservation_samePair)
  have am: "n_answerMappings pattern' = n_answerMappings pattern"
    using Cons.prems(2) by (simp add: sameObservation_def)
  show ?case
  proof (cases "samePair pattern p")
    case True
    then show ?thesis
      by (simp add: sp samePair_mergeInto mergeInto_twice [OF am])
  next
    case False
    with Cons show ?thesis by (simp add: sp)
  qed
qed

lemma addPattern_fresh:
  "\<not> list_ex (samePair pattern) st \<Longrightarrow>
   addPattern now newId pattern st = st @ [newPattern now newId pattern]"
  by (induction st) simp_all

lemma addPattern_append_fresh:
  "\<not> list_ex (samePair pattern) st \<Longrightarrow> samePair pattern np \<Longrightarrow>
   addPattern now newId pattern (st @ [np]) = st @ [mergeInto now pattern np]"
  by (induction st) simp_all

lemma addPattern_twice_fresh:
  assumes fresh: "\<not> list_ex (samePair pattern) st"
    and one: "n_answerMappings pattern = Some [m]"
    and same: "sameObservation pattern pattern'"
  shows "addPattern now' newId' pattern' (addPattern now newId pattern st) =
           st @ [(newPattern now newId pattern)\<lparr>lastUsed := now'\<rparr>]"
proof -
  have sp: "\<And>x. samePair pattern' x = samePair pattern x"
    using same by (rule sameObservation_samePair)
  have am: "n_answerMappings pattern' = Some [m]"
    using same one by (simp add: sameObservation_def)
  have f': "\<not> list_ex (samePair pattern') st"
    using fresh by (simp add: list_ex_iff sp)
  have np: "samePair pattern' (newPattern now newId pattern)"
    by (simp add: sp samePair_newPattern)
  have "mergeInto now' pattern' (newPattern now newId pattern) =
          (newPattern now newId pattern)\<lparr>lastUsed := now'\<rparr>"
    by (simp add: mergeInto_def am newPattern_def one mergeMappings_def pushVariants_id)
  with addPattern_append_fresh [OF f' np, of now' newId'] addPattern_fresh [OF fresh, of now newId]
  show ?thesis by simp
qed

lemma mergeMapping_distinct:
  "list_all (\<lambda>m. distinct (variants m)) ms \<Longrightarrow> distinct (variants n) \<Longrightarrow>
   list_all (\<lambda>m. distinct (variants m)) (mergeMapping ms n)"
  by (induction ms) (auto simp: distinct_pushVariants)

lemma mergeMappings_distinct:
  "list_all (\<lambda>m. distinct (variants m)) ms \<Longrightarrow> list_all (\<lambda>m. distinct (variants m)) new \<Longrightarrow>
   list_all (\<lambda>m. distinct (variants m)) (mergeMappings ms new)"
  unfolding mergeMappings_def
  by (induction new arbitrary: ms) (simp_all add: mergeMapping_distinct)

lemma addPattern_distinct:
  "list_all (\<lambda>p. variantsDistinct (answerMappings p)) st \<Longrightarrow>
   variantsDistinct (n_answerMappings pattern) \<Longrightarrow>
   list_all (\<lambda>p. variantsDistinct (answerMappings p)) (addPattern now newId pattern st)"
  by (induction st)
     (auto simp: variantsDistinct_def newPattern_def mergeInto_def mergeMappings_distinct
           split: option.splits)

text \<open>
  Merge-only learning. For any store, \<open>addPattern\<close> keeps every stored pattern in its
  place with its identity, and the variant lists that a pattern has are only extended
  at the end; the patterns of other pairs are untouched; the pair of the added pattern
  has one entry afterwards if it had none, and as many as before otherwise, so no
  duplicate is created. On a store without an entry for the pair, two calls with the
  same one-mapping observation leave one new pattern that holds the mapping as given,
  with only \<open>lastUsed\<close> moved by the second call; on a store with an entry for the pair,
  the second call changes nothing but \<open>lastUsed\<close>. When the first entry of the pair has
  answer mappings, the call merges the new ones into them, after which each new mapping
  is covered; and variant lists without duplicates stay so.
\<close>

theorem addPattern_merge_only:
  "storeGrows st (addPattern now newId pattern st) \<and>
   length (filter (samePair pattern) (addPattern now newId pattern st)) =
     max 1 (length (filter (samePair pattern) st)) \<and>
   filter (\<lambda>p. \<not> samePair pattern p) (addPattern now newId pattern st) =
     filter (\<lambda>p. \<not> samePair pattern p) st \<and>
   (sameObservation pattern pattern' \<and> \<not> list_ex (samePair pattern) st \<and>
    n_answerMappings pattern = Some [m] \<longrightarrow>
      addPattern now' newId' pattern' (addPattern now newId pattern st) =
        st @ [(newPattern now newId pattern)\<lparr>lastUsed := now'\<rparr>]) \<and>
   (sameObservation pattern pattern' \<and> list_ex (samePair pattern) st \<longrightarrow>
      addPattern now' newId' pattern' (addPattern now newId pattern st) =
        addPattern now' newId pattern st) \<and>
   (find (samePair pattern) st = Some p \<and> answerMappings p = Some old \<and>
    n_answerMappings pattern = Some new \<longrightarrow>
      find (samePair pattern) (addPattern now newId pattern st) =
        Some (p\<lparr>answerMappings := Some (mergeMappings old new), lastUsed := now,
                synced := Some False\<rparr>) \<and>
      (\<forall>n \<in> set new. covered n (mergeMappings old new))) \<and>
   (list_all (\<lambda>p. variantsDistinct (answerMappings p)) st \<and>
    variantsDistinct (n_answerMappings pattern) \<longrightarrow>
      list_all (\<lambda>p. variantsDistinct (answerMappings p)) (addPattern now newId pattern st))"
proof (intro conjI impI)
  show "storeGrows st (addPattern now newId pattern st)" by (rule addPattern_grows)
  show "length (filter (samePair pattern) (addPattern now newId pattern st)) =
     max 1 (length (filter (samePair pattern) st))" by (rule addPattern_count)
  show "filter (\<lambda>p. \<not> samePair pattern p) (addPattern now newId pattern st) =
     filter (\<lambda>p. \<not> samePair pattern p) st" by (rule addPattern_others)
next
  assume "sameObservation pattern pattern' \<and> \<not> list_ex (samePair pattern) st \<and>
    n_answerMappings pattern = Some [m]"
  then show "addPattern now' newId' pattern' (addPattern now newId pattern st) =
        st @ [(newPattern now newId pattern)\<lparr>lastUsed := now'\<rparr>]"
    using addPattern_twice_fresh by blast
next
  assume "sameObservation pattern pattern' \<and> list_ex (samePair pattern) st"
  then show "addPattern now' newId' pattern' (addPattern now newId pattern st) =
        addPattern now' newId pattern st"
    using addPattern_twice_existing by blast
next
  assume a: "find (samePair pattern) st = Some p \<and> answerMappings p = Some old \<and>
    n_answerMappings pattern = Some new"
  then have "mergeInto now pattern p =
     p\<lparr>answerMappings := Some (mergeMappings old new), lastUsed := now, synced := Some False\<rparr>"
    by (simp add: mergeInto_def)
  with a addPattern_find [of pattern st p now newId]
  show "find (samePair pattern) (addPattern now newId pattern st) =
        Some (p\<lparr>answerMappings := Some (mergeMappings old new), lastUsed := now,
                synced := Some False\<rparr>)" by simp
  show "\<forall>n \<in> set new. covered n (mergeMappings old new)" by (rule mergeMappings_covers)
next
  assume "list_all (\<lambda>p. variantsDistinct (answerMappings p)) st \<and>
    variantsDistinct (n_answerMappings pattern)"
  then show "list_all (\<lambda>p. variantsDistinct (answerMappings p)) (addPattern now newId pattern st)"
    using addPattern_distinct by blast
qed

theorem addPattern_merge_only_witness:
  "sameObservation ex_observation ex_observation \<and>
   \<not> list_ex (samePair ex_observation) [] \<and>
   addPattern ''t2'' ''id2'' ex_observation (addPattern ''t1'' ''id1'' ex_observation []) =
     [(newPattern ''t1'' ''id1'' ex_observation)\<lparr>lastUsed := ''t2''\<rparr>] \<and>
   answerMappings ((newPattern ''t1'' ''id1'' ex_observation)\<lparr>lastUsed := ''t2''\<rparr>) =
     Some [\<lparr>canonicalValue = ''2 weeks'', variants = [''2 weeks''],
            contextOptions = Some [''Immediately'', ''2 weeks'', ''1 month'']\<rparr>] \<and>
   find (samePair ex_gender_observation) [ex_heard_pattern, ex_gender_pattern] =
     Some ex_gender_pattern \<and>
   find (samePair ex_gender_observation)
     (addPattern ''t1'' ''id1'' ex_gender_observation [ex_heard_pattern, ex_gender_pattern]) =
     Some (ex_gender_pattern
       \<lparr>answerMappings :=
          Some [\<lparr>canonicalValue = ''Non-binary'', variants = [''Non-binary'', ''Nonbinary''],
                 contextOptions = Some [''Man'', ''Woman'', ''Non-binary'']\<rparr>],
        lastUsed := ''t1'', synced := Some False\<rparr>) \<and>
   addPattern ''t2'' ''id2'' ex_gender_observation
     (addPattern ''t1'' ''id1'' ex_gender_observation [ex_heard_pattern, ex_gender_pattern]) =
     [ex_heard_pattern,
      ex_gender_pattern
       \<lparr>answerMappings :=
          Some [\<lparr>canonicalValue = ''Non-binary'', variants = [''Non-binary'', ''Nonbinary''],
                 contextOptions = Some [''Man'', ''Woman'', ''Non-binary'']\<rparr>],
        lastUsed := ''t2'', synced := Some False\<rparr>]"
proof -
  let ?m = "\<lparr>canonicalValue = ''2 weeks'', variants = [''2 weeks''],
            contextOptions = Some [''Immediately'', ''2 weeks'', ''1 month'']\<rparr>"
  let ?old = "[\<lparr>canonicalValue = ''Non-binary'', variants = [''Non-binary''],
                contextOptions = Some [''Man'', ''Woman'', ''Non-binary'']\<rparr>]"
  let ?new = "[\<lparr>canonicalValue = ''Non-binary'', variants = [''Nonbinary''],
                contextOptions = Some [''Male'', ''Female'', ''Nonbinary'']\<rparr>]"
  let ?merged = "[\<lparr>canonicalValue = ''Non-binary'', variants = [''Non-binary'', ''Nonbinary''],
                   contextOptions = Some [''Man'', ''Woman'', ''Non-binary'']\<rparr>]"
  let ?st = "[ex_heard_pattern, ex_gender_pattern]"
  have s: "sameObservation ex_observation ex_observation"
    by (simp add: sameObservation_def)
  have f: "\<not> list_ex (samePair ex_observation) []" by simp
  have m: "n_answerMappings ex_observation = Some [?m]"
    by (simp add: ex_observation_def)
  from addPattern_merge_only [where st = "[]" and pattern = ex_observation
      and pattern' = ex_observation and now = "''t1''" and newId = "''id1''"
      and now' = "''t2''" and newId' = "''id2''" and m = ?m] s f m
  have "addPattern ''t2'' ''id2'' ex_observation (addPattern ''t1'' ''id1'' ex_observation []) =
     [] @ [(newPattern ''t1'' ''id1'' ex_observation)\<lparr>lastUsed := ''t2''\<rparr>]"
    by blast
  then have 1: "addPattern ''t2'' ''id2'' ex_observation
       (addPattern ''t1'' ''id1'' ex_observation []) =
     [(newPattern ''t1'' ''id1'' ex_observation)\<lparr>lastUsed := ''t2''\<rparr>]"
    by simp
  have 2: "answerMappings ((newPattern ''t1'' ''id1'' ex_observation)\<lparr>lastUsed := ''t2''\<rparr>) =
     Some [?m]"
    using m by (simp add: newPattern_def)
  have s2: "sameObservation ex_gender_observation ex_gender_observation"
    by (simp add: sameObservation_def)
  have fnd: "find (samePair ex_gender_observation) ?st = Some ex_gender_pattern"
    by code_simp
  have ex: "list_ex (samePair ex_gender_observation) ?st"
    by code_simp
  have old: "answerMappings ex_gender_pattern = Some ?old"
    by (simp add: ex_gender_pattern_def)
  have new: "n_answerMappings ex_gender_observation = Some ?new"
    by (simp add: ex_gender_observation_def)
  have mm: "mergeMappings ?old ?new = ?merged"
    by code_simp
  have once: "addPattern ''t2'' ''id1'' ex_gender_observation ?st =
     [ex_heard_pattern,
      ex_gender_pattern\<lparr>answerMappings := Some ?merged, lastUsed := ''t2'',
        synced := Some False\<rparr>]"
    by code_simp
  note inst = addPattern_merge_only [where st = ?st and pattern = ex_gender_observation
      and pattern' = ex_gender_observation and now = "''t1''" and newId = "''id1''"
      and now' = "''t2''" and newId' = "''id2''" and p = ex_gender_pattern
      and old = ?old and new = ?new]
  from inst fnd old new
  have "find (samePair ex_gender_observation)
          (addPattern ''t1'' ''id1'' ex_gender_observation ?st) =
        Some (ex_gender_pattern\<lparr>answerMappings := Some (mergeMappings ?old ?new),
                lastUsed := ''t1'', synced := Some False\<rparr>)"
    by blast
  then have 3: "find (samePair ex_gender_observation)
          (addPattern ''t1'' ''id1'' ex_gender_observation ?st) =
        Some (ex_gender_pattern\<lparr>answerMappings := Some ?merged,
                lastUsed := ''t1'', synced := Some False\<rparr>)"
    unfolding mm .
  from inst s2 ex
  have "addPattern ''t2'' ''id2'' ex_gender_observation
          (addPattern ''t1'' ''id1'' ex_gender_observation ?st) =
        addPattern ''t2'' ''id1'' ex_gender_observation ?st"
    by blast
  then have 4: "addPattern ''t2'' ''id2'' ex_gender_observation
          (addPattern ''t1'' ''id1'' ex_gender_observation ?st) =
     [ex_heard_pattern,
      ex_gender_pattern\<lparr>answerMappings := Some ?merged, lastUsed := ''t2'',
        synced := Some False\<rparr>]"
    unfolding once .
  from s f 1 2 fnd 3 4 show ?thesis by (intro conjI)
qed

text \<open>
  Claim C4. The claim fails on a store that the mapper itself produces. An answer of the
  oracle under a new intent to a question without options is stored by
  \<open>learnFromAIResponse\<close> as a pattern without answer mappings. A later observation for
  the same intent and question pattern does carry an answer mapping, but \<open>addPattern\<close>
  merges only when the stored entry has answer mappings too: it finds the entry, skips
  the merge and moves \<open>lastUsed\<close>. So after the question has come back as a select, and
  after two calls of \<open>addPattern\<close> with the same observation, the pair has one pattern in
  which the observed variant appears not once but never, although \<open>learnFromAIResponse\<close>
  reports the pattern as stored with the variant.
\<close>

theorem addPattern_bare_entry_drops_variant:
  "processQuestions ex_ai_notice ''t0'' ex_ids (Some ex_profile) [] [ex_notice_text] =
     Inr ([aiMapped ex_notice_text ex_notice_reply ''2 weeks''], [ex_bare_pattern]) \<and>
   answerMappings ex_bare_pattern = None \<and>
   processQuestions ex_ai_notice ''t1'' ex_ids (Some ex_profile) [ex_bare_pattern] [ex_notice] =
     Inr ([aiMapped ex_notice ex_notice_reply ''2 weeks''],
          [ex_bare_pattern\<lparr>usageCount := 1, lastUsed := ''t1''\<rparr>]) \<and>
   answerMappings (ex_bare_pattern\<lparr>usageCount := 1, lastUsed := ''t1''\<rparr>) = None \<and>
   n_answerMappings ex_observation =
     Some [\<lparr>canonicalValue = ''2 weeks'', variants = [''2 weeks''],
            contextOptions = Some [''Immediately'', ''2 weeks'', ''1 month'']\<rparr>] \<and>
   samePair ex_observation ex_bare_pattern \<and>
   addPattern ''t2'' ''id2'' ex_observation
     (addPattern ''t1'' ''id1'' ex_observation [ex_bare_pattern]) =
     [ex_bare_pattern\<lparr>lastUsed := ''t2''\<rparr>] \<and>
   answerMappings (ex_bare_pattern\<lparr>lastUsed := ''t2''\<rparr>) = None"
  by code_simp


section \<open>Question mapper: proofs\<close>

lemma find_truthy_Some: "find_truthy P xs = Some x \<Longrightarrow> x \<in> set xs \<and> x \<noteq> [] \<and> P x"
  by (auto simp: find_truthy_def find_Some_iff split: option.splits if_splits)

lemma first_some_Some: "first_some f xs = Some y \<Longrightarrow> \<exists>x \<in> set xs. f x = Some y"
  by (induction xs) (auto split: option.splits)

lemma synonymMatch_in: "synonymMatch v opts = Inr (Some x) \<Longrightarrow> x \<in> set opts"
  by (auto simp: synonymMatch_def split: js_lookup.splits
           dest!: first_some_Some find_truthy_Some)

lemma countryMatch_in: "countryMatch v opts = Some x \<Longrightarrow> x \<in> set opts"
  by (auto simp: countryMatch_def split: js_lookup.splits dest!: find_truthy_Some)

lemma matchInOptions_result:
  "matchInOptions v os c = Inr (Some r) \<Longrightarrow>
   r_source r = Canonical \<and> r_confidence r = c \<and> r_fileName r = None \<and>
   constrained os (r_answer r)"
  unfolding matchInOptions_def constrained_def Let_def
  by (auto simp: canonical_result_def split: if_splits option.splits sum.splits
           dest!: find_truthy_Some synonymMatch_in countryMatch_in)

lemma canonicalCertain_if:
  "canonicalCertain a \<Longrightarrow> canonicalCertain b \<Longrightarrow> canonicalCertain (if c then a else b)"
  by simp

lemma canonicalCertain_direct: "canonicalCertain (Inr (Some (canonical_result a 1)))"
  by (simp add: canonicalCertain_def canonical_result_def)

lemma canonicalCertain_file: "canonicalCertain (Inr (Some (fileResult a f)))"
  by (simp add: canonicalCertain_def fileResult_def)

lemma canonicalCertain_match: "canonicalCertain (matchInOptions v os 1)"
  using matchInOptions_result [of v os 1]
  by (auto simp: canonicalCertain_def split: sum.splits option.splits)

lemma canonicalCertain_none: "canonicalCertain (Inr None)"
  by (simp add: canonicalCertain_def)

lemma tryCanonical_certain: "canonicalCertain (tryCanonical q profile)"
  unfolding tryCanonical_def Let_def
  by (intro canonicalCertain_if canonicalCertain_direct canonicalCertain_file
        canonicalCertain_match canonicalCertain_none)

lemma tryCanonical_result:
  "tryCanonical q profile = Inr (Some r) \<Longrightarrow> r_source r = Canonical \<and> r_confidence r = 1"
  using tryCanonical_certain [of q profile] by (simp add: canonicalCertain_def)




lemma tryMapping_canonical:
  "tryCanonical q profile = Inr (Some r) \<Longrightarrow> tryMapping now q profile st = Inr (Some r, st)"
  by (simp add: tryMapping_def)


lemma mapped_fields:
  "source (mapped q r) = r_source r" "answer (mapped q r) = r_answer r"
  "m_options (mapped q r) = options q" "confidence (mapped q r) = r_confidence r"
  by (simp_all add: mapped_def)







lemma phase1_canonical:
  "phase1 now profile st qs = Inr (m, u, st') \<Longrightarrow> q \<in> set qs \<Longrightarrow>
   tryCanonical q profile = Inr (Some r) \<Longrightarrow> mapped q r \<in> set m"
proof (induction qs arbitrary: st m u st')
  case Nil
  then show ?case by simp
next
  case (Cons x qs)
  from Cons.prems obtain res st1 where t: "tryMapping now x profile st = Inr (res, st1)"
    by (auto split: sum.splits)
  from Cons.prems t obtain m2 u2 st2 where p: "phase1 now profile st1 qs = Inr (m2, u2, st2)"
    by (auto split: sum.splits)
  have sub: "set m2 \<subseteq> set m"
    using Cons.prems(1) t p by (auto split: option.splits if_splits)
  show ?case
  proof (cases "q = x")
    case True
    from tryMapping_canonical [OF Cons.prems(3), of now st] t True
    have res: "res = Some r" by simp
    from tryCanonical_result [OF Cons.prems(3)] have "r_confidence r \<ge> 0.85" by simp
    with Cons.prems(1) t p res True show ?thesis by auto
  next
    case False
    with Cons.prems have "q \<in> set qs" by simp
    from Cons.IH [OF p this Cons.prems(3)] sub show ?thesis by auto
  qed
qed



lemma processQuestions_split:
  "processQuestions askAI now newId stored st qs = Inr (answers, st') \<Longrightarrow>
   truthy (loadProfile stored) \<and>
   (\<exists>m u st1. phase1 now (loadProfile stored) st qs = Inr (m, u, st1) \<and>
      answers = m @ requestAIAnswers askAI u (loadProfile stored))"
  unfolding processQuestions_def Let_def
  by (auto simp: requestAIAnswers_def List.map_filter_simps split: if_splits sum.splits)






lemma case_find_Cons:
  "(case find P (x # xs) of None \<Rightarrow> n | Some z \<Rightarrow> f z) =
   (if P x then f x else (case find P xs of None \<Rightarrow> n | Some z \<Rightarrow> f z))"
  by simp

lemma case_find_Nil: "(case find P [] of None \<Rightarrow> n | Some z \<Rightarrow> f z) = n"
  by simp

lemmas ruleApplies_unfolded =
  ruleApplies.simps [unfolded asks_def reads_def fileFor_def attachFor_def pfield_def pdoc_def]

lemma tryCanonical_table:
  "(case canonicalRule q p of
      None \<Rightarrow> tryCanonical q p = Inr None
    | Some rl \<Rightarrow> ruleOutcome q p rl (tryCanonical q p))"
  unfolding canonicalRule_def canonicalRules_def tryCanonical_def Let_def
  apply (simp only: case_find_Cons case_find_Nil)
  apply (simp only: ruleApplies_unfolded [symmetric])
  apply (simp add: ruleOutcome_def pfield_def del: ruleApplies.simps cong: if_cong split del: if_split)
  done



lemma canonicalRule_direct:
  "canonicalRule q p = Some rl \<Longrightarrow> matcherValue rl p = None \<Longrightarrow>
   \<exists>r. tryCanonical q p = Inr (Some r)"
  using tryCanonical_table [of q p] by (simp add: ruleOutcome_def)













text \<open>
  Claim C3. When the canonical tier has a result for a question, \<open>tryMapping\<close> returns
  that result and leaves the pattern store as it was: the learned tier is not run. The
  result is tagged \<open>canonical\<close> with confidence 1, so \<open>processQuestions\<close> emits it for the
  question, whatever the pattern store holds.
\<close>

theorem canonical_first:
  "tryCanonical q profile = Inr (Some r) \<Longrightarrow>
   tryMapping now q profile st = Inr (Some r, st) \<and>
   r_source r = Canonical \<and> r_confidence r = 1 \<and>
   (q \<in> set qs \<and> loadProfile stored = profile \<and>
    processQuestions askAI now newId stored st qs = Inr (answers, st') \<longrightarrow>
      mapped q r \<in> set answers \<and> source (mapped q r) = Canonical \<and>
      answer (mapped q r) = r_answer r)"
proof -
  assume c: "tryCanonical q profile = Inr (Some r)"
  note res = tryCanonical_result [OF c]
  have "mapped q r \<in> set answers"
    if "q \<in> set qs" "loadProfile stored = profile"
       "processQuestions askAI now newId stored st qs = Inr (answers, st')"
  proof -
    from processQuestions_split [OF that(3)] that(2) obtain m u st1 where
      p: "phase1 now profile st qs = Inr (m, u, st1)" and
      ans: "answers = m @ requestAIAnswers askAI u profile"
      by blast
    from phase1_canonical [OF p that(1) c] ans show ?thesis by simp
  qed
  with res tryMapping_canonical [OF c, of now st] show ?thesis
    by (auto simp: mapped_fields)
qed

theorem canonical_first_witness:
  "tryCanonical ex_gender ex_profile = Inr (Some (canonical_result ''Man'' 1)) \<and>
   fst (tryLearned ''t1'' ex_gender ex_profile [ex_gender_pattern]) =
     Some (learned_result ''Non-binary'' 0.95) \<and>
   tryMapping ''t1'' ex_gender ex_profile [ex_gender_pattern] =
     Inr (Some (canonical_result ''Man'' 1), [ex_gender_pattern]) \<and>
   processQuestions ex_no_ai ''t1'' ex_ids (Some ex_profile) [ex_gender_pattern] [ex_gender] =
     Inr ([mapped ex_gender (canonical_result ''Man'' 1)], [ex_gender_pattern]) \<and>
   source (mapped ex_gender (canonical_result ''Man'' 1)) = Canonical"
proof -
  have c: "tryCanonical ex_gender ex_profile = Inr (Some (canonical_result ''Man'' 1))"
    by code_simp
  have l: "fst (tryLearned ''t1'' ex_gender ex_profile [ex_gender_pattern]) =
     Some (learned_result ''Non-binary'' 0.95)"
    by code_simp
  have run: "processQuestions ex_no_ai ''t1'' ex_ids (Some ex_profile) [ex_gender_pattern]
     [ex_gender] = Inr ([mapped ex_gender (canonical_result ''Man'' 1)], [ex_gender_pattern])"
    by code_simp
  have lp: "loadProfile (Some ex_profile) = ex_profile"
    by (simp add: loadProfile_def ex_profile_def)
  from canonical_first [OF c, where now = "''t1''" and st = "[ex_gender_pattern]"
      and qs = "[ex_gender]" and stored = "Some ex_profile" and askAI = ex_no_ai
      and newId = ex_ids and answers = "[mapped ex_gender (canonical_result ''Man'' 1)]"
      and st' = "[ex_gender_pattern]"] run lp
  have "tryMapping ''t1'' ex_gender ex_profile [ex_gender_pattern] =
          Inr (Some (canonical_result ''Man'' 1), [ex_gender_pattern]) \<and>
        source (mapped ex_gender (canonical_result ''Man'' 1)) = Canonical"
    by simp
  with c l run show ?thesis by simp
qed

text \<open>
  Errors of the whole call. Without a profile the call fails with the profile error,
  and with a profile never with that error; the only other error is the TypeError of
  the option matcher.
\<close>

lemma matchInOptions_error: "matchInOptions v os c = Inl e \<Longrightarrow> e = TypeError"
  unfolding matchInOptions_def Let_def synonymMatch_def
  by (auto split: if_splits option.splits sum.splits js_lookup.splits)

lemma processQuestions_no_profile:
  "processQuestions askAI now newId stored st qs = Inl NoProfile \<longleftrightarrow>
     loadProfile stored = JNull"
proof -
  have fz: "\<And>q p e. tryFuzzy q p = Inl e \<Longrightarrow> e = TypeError"
    by (auto simp: tryFuzzy_def split: option.splits if_splits dest: matchInOptions_error)
  have tc: "\<And>q p. tryCanonical q p \<noteq> Inl NoProfile"
  proof
    fix q p
    assume a: "tryCanonical q p = Inl NoProfile"
    have i: "\<And>c a b. a \<noteq> Inl NoProfile \<Longrightarrow> b \<noteq> Inl NoProfile \<Longrightarrow>
                (if c then a else b) \<noteq> (Inl NoProfile :: error + MapResult option)"
      by simp
    have mo: "\<And>v os c. matchInOptions v os c \<noteq> Inl NoProfile"
      using matchInOptions_error by fastforce
    have "tryCanonical q p \<noteq> Inl NoProfile"
      unfolding tryCanonical_def Let_def by (intro i mo) simp_all
    with a show False by simp
  qed
  have tm: "\<And>q p s. tryMapping now q p s \<noteq> Inl NoProfile"
    unfolding tryMapping_def using tc
    by (auto split: sum.splits option.splits prod.splits if_splits dest: fz)
  have ph: "\<And>p s. phase1 now p s qs \<noteq> Inl NoProfile"
  proof (induction qs)
    case Nil
    show ?case by simp
  next
    case (Cons q qs)
    show ?case using tm [of q p s] Cons
      by (auto split: sum.splits option.splits prod.splits if_splits)
  qed
  have lp: "truthy (loadProfile stored) \<longleftrightarrow> loadProfile stored \<noteq> JNull"
    by (auto simp: loadProfile_def split: option.splits)
  show ?thesis
    unfolding processQuestions_def Let_def using ph [of "loadProfile stored" st] lp
    by (auto split: sum.splits prod.splits if_splits)
qed

text \<open>
  Claim C5. \<open>processQuestions\<close> is to throw exactly when no profile is available. It
  throws the profile error exactly then, but it also throws with a profile: when a
  profile value that goes through \<open>matchInOptions\<close> reads \<open>constructor\<close> (or \<open>__proto__\<close>)
  after lower-casing and is not itself an option, the lookup in the synonym table finds
  an inherited property, the loop over it throws a TypeError, and nothing between
  \<open>matchInOptions\<close> and \<open>processQuestions\<close> catches it. Here the profile's gender is
  \<open>Constructor\<close> and the question is the gender dropdown.
\<close>

theorem processQuestions_throws_with_profile:
  "loadProfile (Some ex_profile_odd) = ex_profile_odd \<and>
   matchInOptions ''Constructor'' (options ex_gender) 1 = Inl TypeError \<and>
   processQuestions ex_no_ai ''t1'' ex_ids (Some ex_profile_odd) [] [ex_gender] = Inl TypeError"
  by code_simp


end
